theory Spec2Isabelle
  imports Main "HOL-Library.AList"
begin

unbundle bit_operations_syntax

section \<open>The operating system as the code sees it\<close>

text \<open>
  \<^verbatim>\<open>synctool/object.py\<close> is a sequence of system calls, each wrapped in a
  \<^verbatim>\<open>try\<close>, with reporting calls around them.  The model keeps three things in a
  \<open>world\<close>: the file system (an association list from path to entry), the trace of
  every system call issued together with its outcome, and the list of reporting calls
  made.  A call fails when the environment injects a fault for it (\<open>faults\<close>: any
  errno, for permission errors, I/O errors and the like) or when the precondition
  written out in \<open>precond\<close> is violated; a call that fails changes nothing.

  Paths name entries directly: no symbolic link is resolved.  That is what the
  operating system does for \<^verbatim>\<open>lstat\<close>, \<^verbatim>\<open>readlink\<close>, \<^verbatim>\<open>rename\<close>,
  \<^verbatim>\<open>unlink\<close>, \<^verbatim>\<open>rmdir\<close>, \<^verbatim>\<open>symlink\<close>, \<^verbatim>\<open>mkdir\<close>, \<^verbatim>\<open>mkfifo\<close>,
  \<^verbatim>\<open>mknod\<close>, \<^verbatim>\<open>lchown\<close> and \<^verbatim>\<open>lchmod\<close>, and for the other calls whenever the
  entry named is not itself a symbolic link.  Device numbers are kept decoded, as the
  pair (major, minor); time stamps are integers (the code only passes them on).
\<close>

type_synonym path = string

datatype ftype = File | Dir | Symlink | Fifo | CharDev | BlockDev | Unknown

record node =
  ntype :: ftype
  nperm :: int
  nuid :: int
  ngid :: int
  ndata :: string
  ntarget :: string
  nrdev :: "int \<times> int"
  natime :: int
  nmtime :: int

datatype errno =
  ENOENT | EEXIST | ENOTEMPTY | ENOTDIR | EISDIR | EINVAL | EACCES | EPERM | EIO | EROFS

datatype syscall =
    OsRename path path
  | OsUnlink path
  | OsRmdir path
  | OsChown path int int
  | OsChmod path int
  | OsLchown path int int
  | OsLchmod path int
  | OsUtime path int int
  | OsMkdir path int
  | OsSymlink string path
  | OsMkfifo path int
  | OsMknod path ftype int "int \<times> int"
  | ShutilCopy path path
  | OsLstat path
  | OsStat path
  | OsReadlink path
  | FileOpen path
  | FileRead path nat

datatype terse_code =
    TERSE_NEW | TERSE_DELETE | TERSE_MKDIR | TERSE_SYNC | TERSE_OWNER | TERSE_MODE
  | TERSE_LINK | TERSE_WARNING | TERSE_FAIL

datatype event =
    Stdout string
  | Stderr string
  | Verbose string
  | UnixOut string
  | Terse terse_code string
  | Log string

record world =
  files :: "(path \<times> node) list"
  faults :: "syscall \<Rightarrow> errno option"
  trace :: "(syscall \<times> errno option) list"
  out :: "event list"

text \<open>
  The process-wide settings and the platform.  \<open>DRY_RUN\<close>, \<open>VERBOSE\<close> and
  \<open>UNIX_CMD\<close> are the globals of \<^verbatim>\<open>synctool.lib\<close>, \<open>BACKUP_COPIES\<close> the one of
  \<^verbatim>\<open>synctool.param\<close>.  \<open>has_lchown\<close> and \<open>has_lchmod\<close> are
  \<^verbatim>\<open>hasattr(os, 'lchown')\<close> and \<^verbatim>\<open>hasattr(os, 'lchmod')\<close>.  The digest of
  \<^verbatim>\<open>hashlib.md5\<close>, the string helpers \<^verbatim>\<open>dryrun_msg\<close> and \<^verbatim>\<open>prettypath\<close> of
  \<^verbatim>\<open>synctool.lib\<close> and the name lookups \<^verbatim>\<open>ascii_uid\<close>, \<^verbatim>\<open>ascii_gid\<close> of the
  stat snapshot are library functions outside this file: they are parameters.
  \<open>euid\<close>, \<open>egid\<close> and \<open>umask\<close> are the identity and creation mask of the process.
\<close>

record env =
  DRY_RUN :: bool
  VERBOSE :: bool
  UNIX_CMD :: bool
  BACKUP_COPIES :: bool
  has_lchown :: bool
  has_lchmod :: bool
  md5 :: "string \<Rightarrow> string"
  dryrun_msg :: "string \<Rightarrow> string"
  prettypath :: "string \<Rightarrow> string"
  ascii_uid :: "int \<Rightarrow> string"
  ascii_gid :: "int \<Rightarrow> string"
  euid :: int
  egid :: int
  umask :: int

subsection \<open>Paths\<close>

text \<open>\<^verbatim>\<open>posixpath.dirname\<close> and \<^verbatim>\<open>posixpath.basename\<close>.\<close>

definition path_head :: "path \<Rightarrow> path" where
  "path_head p = rev (dropWhile (\<lambda>c. c \<noteq> CHR ''/'') (rev p))"

definition rstrip_slash :: "path \<Rightarrow> path" where
  "rstrip_slash p = rev (dropWhile (\<lambda>c. c = CHR ''/'') (rev p))"

definition dirname :: "path \<Rightarrow> path" where
  "dirname p =
     (let head = path_head p in
      if head \<noteq> [] \<and> \<not> list_all (\<lambda>c. c = CHR ''/'') head then rstrip_slash head
      else head)"

definition basename :: "path \<Rightarrow> path" where
  "basename p = rev (takeWhile (\<lambda>c. c \<noteq> CHR ''/'') (rev p))"

text \<open>
  \<open>under d p\<close>: the path \<open>p\<close> lies below the directory \<open>d\<close>.  Paths are kept
  without a trailing slash, the root apart.
\<close>

definition under :: "path \<Rightarrow> path \<Rightarrow> bool" where
  "under d p =
     (length d < length p \<and> take (length d) p = d \<and>
      (p ! length d = CHR ''/'' \<or> d = ''/''))"

definition nonempty_dir :: "(path \<times> node) list \<Rightarrow> path \<Rightarrow> bool" where
  "nonempty_dir fs d = list_ex (\<lambda>(p, n). under d p) fs"

definition is_dir_at :: "(path \<times> node) list \<Rightarrow> path \<Rightarrow> bool" where
  "is_dir_at fs p = (case map_of fs p of None \<Rightarrow> False | Some n \<Rightarrow> ntype n = Dir)"

definition relocate :: "path \<Rightarrow> path \<Rightarrow> path \<Rightarrow> path" where
  "relocate a b p =
     (if p = a then b else if under a p then b @ drop (length a) p else p)"

subsection \<open>System calls\<close>

definition new_node :: "env \<Rightarrow> ftype \<Rightarrow> int \<Rightarrow> node" where
  "new_node e t perm =
     \<lparr>ntype = t, nperm = perm, nuid = euid e, ngid = egid e, ndata = [], ntarget = [],
      nrdev = (0, 0), natime = 0, nmtime = 0\<rparr>"

definition create_perm :: "env \<Rightarrow> int \<Rightarrow> int" where
  "create_perm e m = (m AND NOT (umask e)) AND 4095"

definition path_join :: "path \<Rightarrow> path \<Rightarrow> path" where
  "path_join a b =
     (if b \<noteq> [] \<and> hd b = CHR ''/'' then b
      else if a = [] \<or> last a = CHR ''/'' then a @ b
      else a @ ''/'' @ b)"

text \<open>Where \<^verbatim>\<open>shutil.copy(src, dst)\<close> writes: into \<open>dst\<close> when that is a directory.\<close>

definition copy_target :: "(path \<times> node) list \<Rightarrow> path \<Rightarrow> path \<Rightarrow> path" where
  "copy_target fs src dst = (if is_dir_at fs dst then path_join dst (basename src) else dst)"

fun missing :: "(path \<times> node) list \<Rightarrow> path \<Rightarrow> errno option" where
  "missing fs p = (case map_of fs p of None \<Rightarrow> Some ENOENT | Some n \<Rightarrow> None)"

fun present :: "(path \<times> node) list \<Rightarrow> path \<Rightarrow> errno option" where
  "present fs p = (case map_of fs p of None \<Rightarrow> None | Some n \<Rightarrow> Some EEXIST)"

text \<open>The error a call fails with on the file system \<open>fs\<close>, if its precondition is violated.\<close>

fun precond :: "(path \<times> node) list \<Rightarrow> syscall \<Rightarrow> errno option" where
  "precond fs (OsRename a b) =
     (case map_of fs a of
        None \<Rightarrow> Some ENOENT
      | Some na \<Rightarrow>
          if a = b then None
          else if under a b then Some EINVAL
          else (case map_of fs b of
                  None \<Rightarrow> None
                | Some nb \<Rightarrow>
                    if ntype na = Dir \<and> ntype nb \<noteq> Dir then Some ENOTDIR
                    else if ntype na \<noteq> Dir \<and> ntype nb = Dir then Some EISDIR
                    else if ntype nb = Dir \<and> nonempty_dir fs b then Some ENOTEMPTY
                    else None))"
| "precond fs (OsUnlink p) =
     (case map_of fs p of
        None \<Rightarrow> Some ENOENT
      | Some n \<Rightarrow> if ntype n = Dir then Some EISDIR else None)"
| "precond fs (OsRmdir p) =
     (case map_of fs p of
        None \<Rightarrow> Some ENOENT
      | Some n \<Rightarrow>
          if ntype n \<noteq> Dir then Some ENOTDIR
          else if nonempty_dir fs p then Some ENOTEMPTY
          else None)"
| "precond fs (OsChown p u g) = missing fs p"
| "precond fs (OsChmod p m) = missing fs p"
| "precond fs (OsLchown p u g) = missing fs p"
| "precond fs (OsLchmod p m) = missing fs p"
| "precond fs (OsUtime p a m) = missing fs p"
| "precond fs (OsMkdir p m) = present fs p"
| "precond fs (OsSymlink t p) = present fs p"
| "precond fs (OsMkfifo p m) = present fs p"
| "precond fs (OsMknod p t m d) = present fs p"
| "precond fs (ShutilCopy src dst) =
     (case map_of fs src of
        None \<Rightarrow> Some ENOENT
      | Some n \<Rightarrow>
          if ntype n = Dir then Some EISDIR
          else if is_dir_at fs (copy_target fs src dst) then Some EISDIR
          else None)"
| "precond fs (OsLstat p) = missing fs p"
| "precond fs (OsStat p) = missing fs p"
| "precond fs (OsReadlink p) =
     (case map_of fs p of
        None \<Rightarrow> Some ENOENT
      | Some n \<Rightarrow> if ntype n = Symlink then None else Some EINVAL)"
| "precond fs (FileOpen p) =
     (case map_of fs p of
        None \<Rightarrow> Some ENOENT
      | Some n \<Rightarrow> if ntype n = Dir then Some EISDIR else None)"
| "precond fs (FileRead p k) = None"

text \<open>What a call that succeeds does to the file system.\<close>

fun effect :: "env \<Rightarrow> syscall \<Rightarrow> (path \<times> node) list \<Rightarrow> (path \<times> node) list" where
  "effect e (OsRename a b) fs =
     (if a = b then fs
      else map (\<lambda>(p, n). (relocate a b p, n)) (filter (\<lambda>(p, n). p \<noteq> b \<and> \<not> under b p) fs))"
| "effect e (OsUnlink p) fs = AList.delete p fs"
| "effect e (OsRmdir p) fs = AList.delete p fs"
| "effect e (OsChown p u g) fs = AList.map_entry p (\<lambda>n. n\<lparr>nuid := u, ngid := g\<rparr>) fs"
| "effect e (OsChmod p m) fs = AList.map_entry p (\<lambda>n. n\<lparr>nperm := m AND 4095\<rparr>) fs"
| "effect e (OsLchown p u g) fs = AList.map_entry p (\<lambda>n. n\<lparr>nuid := u, ngid := g\<rparr>) fs"
| "effect e (OsLchmod p m) fs = AList.map_entry p (\<lambda>n. n\<lparr>nperm := m AND 4095\<rparr>) fs"
| "effect e (OsUtime p a m) fs = AList.map_entry p (\<lambda>n. n\<lparr>natime := a, nmtime := m\<rparr>) fs"
| "effect e (OsMkdir p m) fs = AList.update p (new_node e Dir (create_perm e m)) fs"
| "effect e (OsSymlink t p) fs = AList.update p ((new_node e Symlink 511)\<lparr>ntarget := t\<rparr>) fs"
| "effect e (OsMkfifo p m) fs = AList.update p (new_node e Fifo (create_perm e m)) fs"
| "effect e (OsMknod p t m d) fs =
     AList.update p ((new_node e t (create_perm e m))\<lparr>nrdev := d\<rparr>) fs"
| "effect e (ShutilCopy src dst) fs =
     (case map_of fs src of
        None \<Rightarrow> fs
      | Some n \<Rightarrow>
          (let t = copy_target fs src dst in
           case map_of fs t of
             None \<Rightarrow>
               AList.update t ((new_node e File (nperm n AND 4095))\<lparr>ndata := ndata n\<rparr>) fs
           | Some old \<Rightarrow>
               AList.update t (old\<lparr>ndata := ndata n, nperm := nperm n AND 4095\<rparr>) fs))"
| "effect e (OsLstat p) fs = fs"
| "effect e (OsStat p) fs = fs"
| "effect e (OsReadlink p) fs = fs"
| "effect e (FileOpen p) fs = fs"
| "effect e (FileRead p k) fs = fs"

text \<open>
  Issuing a call: the outcome is the injected fault if there is one, else the violated
  precondition if there is one, else success.  The call and its outcome are appended to
  the trace, and the effect is applied on success only.
\<close>

definition outcome :: "world \<Rightarrow> syscall \<Rightarrow> errno option" where
  "outcome w c = (case faults w c of Some err \<Rightarrow> Some err | None \<Rightarrow> precond (files w) c)"

definition perform :: "env \<Rightarrow> syscall \<Rightarrow> world \<Rightarrow> world" where
  "perform e c w =
     w\<lparr>files := (if outcome w c = None then effect e c (files w) else files w),
       trace := trace w @ [(c, outcome w c)]\<rparr>"

definition sys :: "env \<Rightarrow> syscall \<Rightarrow> world \<Rightarrow> errno option \<times> world" where
  "sys e c w = (outcome w c, perform e c w)"

text \<open>The calls that mutate the file system; the others only read it.\<close>

fun mutating :: "syscall \<Rightarrow> bool" where
  "mutating (OsLstat p) = False"
| "mutating (OsStat p) = False"
| "mutating (OsReadlink p) = False"
| "mutating (FileOpen p) = False"
| "mutating (FileRead p k) = False"
| "mutating c = True"

subsection \<open>Reporting\<close>

text \<open>
  \<^verbatim>\<open>stdout\<close>, \<^verbatim>\<open>stderr\<close>, \<^verbatim>\<open>verbose\<close>, \<^verbatim>\<open>unix_out\<close>, \<^verbatim>\<open>terse\<close> and
  \<^verbatim>\<open>log\<close> of \<^verbatim>\<open>synctool.lib\<close>: each call is recorded with its argument.  Whether
  the library prints it (it looks at the verbosity settings) is not this file's business.
\<close>

definition stdout :: "string \<Rightarrow> world \<Rightarrow> world" where
  "stdout s w = w\<lparr>out := out w @ [Stdout s]\<rparr>"

definition stderr :: "string \<Rightarrow> world \<Rightarrow> world" where
  "stderr s w = w\<lparr>out := out w @ [Stderr s]\<rparr>"

definition verbose :: "string \<Rightarrow> world \<Rightarrow> world" where
  "verbose s w = w\<lparr>out := out w @ [Verbose s]\<rparr>"

definition unix_out :: "string \<Rightarrow> world \<Rightarrow> world" where
  "unix_out s w = w\<lparr>out := out w @ [UnixOut s]\<rparr>"

definition terse :: "terse_code \<Rightarrow> string \<Rightarrow> world \<Rightarrow> world" where
  "terse c s w = w\<lparr>out := out w @ [Terse c s]\<rparr>"

definition log :: "string \<Rightarrow> world \<Rightarrow> world" where
  "log s w = w\<lparr>out := out w @ [Log s]\<rparr>"

fun strerror :: "errno \<Rightarrow> string" where
  "strerror ENOENT = ''No such file or directory''"
| "strerror EEXIST = ''File exists''"
| "strerror ENOTEMPTY = ''Directory not empty''"
| "strerror ENOTDIR = ''Not a directory''"
| "strerror EISDIR = ''Is a directory''"
| "strerror EINVAL = ''Invalid argument''"
| "strerror EACCES = ''Permission denied''"
| "strerror EPERM = ''Operation not permitted''"
| "strerror EIO = ''Input/output error''"
| "strerror EROFS = ''Read-only file system''"

text \<open>The conversions \<^verbatim>\<open>%d\<close>, \<^verbatim>\<open>%o\<close> and \<^verbatim>\<open>%04o\<close> of Python's string formatting.\<close>

definition digit :: "nat \<Rightarrow> char" where
  "digit n = ''0123456789'' ! (n mod 10)"

fun digits :: "nat \<Rightarrow> nat \<Rightarrow> string" where
  "digits b n = (if b < 2 \<or> n < b then [digit n] else digits b (n div b) @ [digit (n mod b)])"

definition fmt_signed :: "nat \<Rightarrow> int \<Rightarrow> string" where
  "fmt_signed b i = (if i < 0 then ''-'' @ digits b (nat (- i)) else digits b (nat i))"

definition fmt_d :: "int \<Rightarrow> string" where
  "fmt_d i = fmt_signed 10 i"

definition fmt_o :: "int \<Rightarrow> string" where
  "fmt_o i = fmt_signed 8 i"

definition fmt_04o :: "int \<Rightarrow> string" where
  "fmt_04o i = (let s = fmt_signed 8 i in replicate (4 - length s) CHR ''0'' @ s)"

section \<open>The stat snapshot\<close>

text \<open>
  Modelled from the spec: \<^verbatim>\<open>synctool.syncstat.SyncStat\<close>, the MetadataSnapshot, is not
  among the sources.  It is an immutable view of one path at the time it is taken:
  whether the entry exists, its type, its permission bits, its owner and group; the code
  also reads its size.  It never queries the file system again.
\<close>

record syncstat =
  entry_exists :: bool
  filetype :: ftype
  mode :: int
  uid :: int
  gid :: int
  fsize :: int

definition no_entry :: syncstat where
  "no_entry = \<lparr>entry_exists = False, filetype = Unknown, mode = 0, uid = 0, gid = 0, fsize = 0\<rparr>"

definition snapshot :: "node \<Rightarrow> syncstat" where
  "snapshot n =
     \<lparr>entry_exists = True, filetype = ntype n, mode = nperm n AND 4095, uid = nuid n,
      gid = ngid n, fsize = int (length (ndata n))\<rparr>"

definition SyncStat :: "env \<Rightarrow> path \<Rightarrow> world \<Rightarrow> syncstat \<times> world" where
  "SyncStat e p w =
     (case sys e (OsLstat p) w of
        (Some err, w) \<Rightarrow> (no_entry, w)
      | (None, w) \<Rightarrow>
          (case map_of (files w) p of None \<Rightarrow> (no_entry, w) | Some n \<Rightarrow> (snapshot n, w)))"

text \<open>
  The result of \<^verbatim>\<open>os.stat\<close> and \<^verbatim>\<open>os.lstat\<close>, of which the code reads
  \<^verbatim>\<open>st_mode\<close>, \<^verbatim>\<open>st_rdev\<close> (through \<^verbatim>\<open>os.major\<close> and \<^verbatim>\<open>os.minor\<close>) and the
  time stamps.
\<close>

record statbuf =
  st_mode :: int
  st_rdev :: "int \<times> int"
  st_atime :: int
  st_mtime :: int

definition S_IFMT :: "ftype \<Rightarrow> int" where
  "S_IFMT t =
     (case t of File \<Rightarrow> 32768 | Dir \<Rightarrow> 16384 | Symlink \<Rightarrow> 40960 | Fifo \<Rightarrow> 4096
      | CharDev \<Rightarrow> 8192 | BlockDev \<Rightarrow> 24576 | Unknown \<Rightarrow> 49152)"

definition statbuf_of :: "node \<Rightarrow> statbuf" where
  "statbuf_of n =
     \<lparr>st_mode = S_IFMT (ntype n) OR (nperm n AND 4095), st_rdev = nrdev n,
      st_atime = natime n, st_mtime = nmtime n\<rparr>"

definition os_major :: "int \<times> int \<Rightarrow> int" where
  "os_major d = fst d"

definition os_minor :: "int \<times> int \<Rightarrow> int" where
  "os_minor d = snd d"

definition os_makedev :: "int \<Rightarrow> int \<Rightarrow> int \<times> int" where
  "os_makedev major minor = (major, minor)"

definition os_stat :: "env \<Rightarrow> path \<Rightarrow> world \<Rightarrow> (errno + statbuf) \<times> world" where
  "os_stat e p w =
     (case sys e (OsStat p) w of
        (Some err, w) \<Rightarrow> (Inl err, w)
      | (None, w) \<Rightarrow>
          (case map_of (files w) p of
             None \<Rightarrow> (Inl ENOENT, w)
           | Some n \<Rightarrow> (Inr (statbuf_of n), w)))"

definition os_lstat :: "env \<Rightarrow> path \<Rightarrow> world \<Rightarrow> (errno + statbuf) \<times> world" where
  "os_lstat e p w =
     (case sys e (OsLstat p) w of
        (Some err, w) \<Rightarrow> (Inl err, w)
      | (None, w) \<Rightarrow>
          (case map_of (files w) p of
             None \<Rightarrow> (Inl ENOENT, w)
           | Some n \<Rightarrow> (Inr (statbuf_of n), w)))"

definition os_readlink :: "env \<Rightarrow> path \<Rightarrow> world \<Rightarrow> (errno + string) \<times> world" where
  "os_readlink e p w =
     (case sys e (OsReadlink p) w of
        (Some err, w) \<Rightarrow> (Inl err, w)
      | (None, w) \<Rightarrow>
          (case map_of (files w) p of
             None \<Rightarrow> (Inl ENOENT, w)
           | Some n \<Rightarrow> (Inr (ntarget n), w)))"

text \<open>\<^verbatim>\<open>os.path.exists\<close>: true when \<^verbatim>\<open>os.stat\<close> succeeds.\<close>

definition os_path_exists :: "env \<Rightarrow> path \<Rightarrow> world \<Rightarrow> bool \<times> world" where
  "os_path_exists e p w = (case sys e (OsStat p) w of (r, w) \<Rightarrow> (r = None, w))"

text \<open>
  Modelled from the spec: \<^verbatim>\<open>synctool.lib.mkdir_p\<close> is not among the sources.  It
  ensures that the directory chain exists, by a recursive make-directory: nothing when
  the path exists, else the parent chain first and then the directory itself.  A
  directory it cannot make is left out.
\<close>

function mkdir_p :: "env \<Rightarrow> path \<Rightarrow> world \<Rightarrow> world" where
  "mkdir_p e p w =
     (if p = [] then w
      else if fst (os_path_exists e p w) then snd (os_path_exists e p w)
      else
        (let w = snd (os_path_exists e p w);
             w = (if length (dirname p) < length p then mkdir_p e (dirname p) w else w)
         in snd (sys e (OsMkdir p 511) w)))"
  by pat_completeness auto
termination
  by (relation "measure (\<lambda>(e, p, w). length p)") auto

declare mkdir_p.simps [simp del]

section \<open>VNode: one handler per entry type\<close>

text \<open>
  The classes \<^verbatim>\<open>VNodeFile\<close>, \<^verbatim>\<open>VNodeDir\<close>, \<^verbatim>\<open>VNodeLink\<close>, \<^verbatim>\<open>VNodeFifo\<close>,
  \<^verbatim>\<open>VNodeChrDev\<close> and \<^verbatim>\<open>VNodeBlkDev\<close> with the fields each adds to the base class:
  the source path, the link target, the raw stat of the source.  A method that a subclass
  overrides is a function per class and a dispatching function of the method's name.
\<close>

datatype vkind =
    VNodeFile path
  | VNodeDir
  | VNodeLink string
  | VNodeFifo
  | VNodeChrDev statbuf
  | VNodeBlkDev statbuf

record vnode =
  name :: path
  stat :: syncstat
  exists :: bool
  kind :: vkind

definition IO_SIZE :: nat where
  "IO_SIZE = 16 * 1024"

fun typename :: "vnode \<Rightarrow> string" where
  "typename v =
     (case kind v of
        VNodeFile src \<Rightarrow> ''regular file''
      | VNodeDir \<Rightarrow> ''directory''
      | VNodeLink oldpath \<Rightarrow> ''symbolic link''
      | VNodeFifo \<Rightarrow> ''fifo''
      | VNodeChrDev src_stat \<Rightarrow> ''character device file''
      | VNodeBlkDev src_stat \<Rightarrow> ''block device file'')"

definition move_saved :: "env \<Rightarrow> vnode \<Rightarrow> world \<Rightarrow> world" where
  "move_saved e v w =
     (let w = verbose (dryrun_msg e (''saving '' @ name v @ '' as '' @ name v @ ''.saved'')) w;
          w = unix_out (''mv '' @ name v @ '' '' @ name v @ ''.saved'') w
      in if \<not> DRY_RUN e then
           (let w = verbose (''  os.rename('' @ name v @ '', '' @ name v @ ''.saved)'') w in
            case sys e (OsRename (name v) (name v @ ''.saved'')) w of
              (None, w) \<Rightarrow> w
            | (Some err, w) \<Rightarrow>
                (let w = stderr (''failed to save '' @ name v @ '' as '' @ name v
                                 @ ''.saved : '' @ strerror err) w
                 in terse TERSE_FAIL (''save '' @ name v @ ''.saved'') w))
         else w)"

definition VNode_harddelete :: "env \<Rightarrow> vnode \<Rightarrow> world \<Rightarrow> world" where
  "VNode_harddelete e v w =
     (let not_str = (if DRY_RUN e then ''not '' else []);
          w = stdout (not_str @ ''deleting '' @ name v) w;
          w = unix_out (''rm '' @ name v) w;
          w = terse TERSE_DELETE (name v) w
      in if \<not> DRY_RUN e then
           (let w = verbose (''  os.unlink('' @ name v @ '')'') w in
            case sys e (OsUnlink (name v)) w of
              (Some err, w) \<Rightarrow>
                (let w = stderr (''failed to delete '' @ name v @ '' : '' @ strerror err) w
                 in terse TERSE_FAIL (''delete '' @ name v) w)
            | (None, w) \<Rightarrow> log (''deleted '' @ name v) w)
         else w)"

definition VNode_quiet_delete :: "env \<Rightarrow> vnode \<Rightarrow> world \<Rightarrow> world" where
  "VNode_quiet_delete e v w =
     (if \<not> DRY_RUN e \<and> \<not> BACKUP_COPIES e then
        (let w = verbose (''  os.unlink('' @ name v @ '')'') w in
         case sys e (OsUnlink (name v)) w of
           (Some err, w) \<Rightarrow> w
         | (None, w) \<Rightarrow> w)
      else w)"

definition mkdir_basepath :: "env \<Rightarrow> vnode \<Rightarrow> world \<Rightarrow> world" where
  "mkdir_basepath e v w =
     (if DRY_RUN e then w
      else
        (let basedir = dirname (name v);
             w = (if VERBOSE e \<or> UNIX_CMD e then
                    (let w = verbose (''making directory '' @ prettypath e basedir) w
                     in unix_out (''mkdir -p '' @ basedir) w)
                  else w)
         in mkdir_p e basedir w))"

definition VNode_set_owner :: "env \<Rightarrow> vnode \<Rightarrow> world \<Rightarrow> world" where
  "VNode_set_owner e v w =
     (let w = verbose (dryrun_msg e (''  os.chown('' @ name v @ '', '' @ fmt_d (uid (stat v))
                                     @ '', '' @ fmt_d (gid (stat v)) @ '')'')) w;
          w = unix_out (''chown '' @ ascii_uid e (uid (stat v)) @ ''.''
                        @ ascii_gid e (gid (stat v)) @ '' '' @ name v) w
      in if \<not> DRY_RUN e then
           (case sys e (OsChown (name v) (uid (stat v)) (gid (stat v))) w of
              (None, w) \<Rightarrow> w
            | (Some err, w) \<Rightarrow>
                (let w = stderr (''failed to chown '' @ ascii_uid e (uid (stat v)) @ ''.''
                                 @ ascii_gid e (gid (stat v)) @ '' '' @ name v @ '' : ''
                                 @ strerror err) w
                 in terse TERSE_FAIL (''owner '' @ name v) w))
         else w)"

definition VNode_set_permissions :: "env \<Rightarrow> vnode \<Rightarrow> world \<Rightarrow> world" where
  "VNode_set_permissions e v w =
     (let w = verbose (dryrun_msg e (''  os.chmod('' @ name v @ '', ''
                                     @ fmt_04o (mode (stat v) AND 4095) @ '')'')) w;
          w = unix_out (''chmod 0'' @ fmt_o (mode (stat v) AND 4095) @ '' '' @ name v) w
      in if \<not> DRY_RUN e then
           (case sys e (OsChmod (name v) (mode (stat v) AND 4095)) w of
              (None, w) \<Rightarrow> w
            | (Some err, w) \<Rightarrow>
                (let w = stderr (''failed to chmod '' @ fmt_04o (mode (stat v) AND 4095)
                                 @ '' '' @ name v @ '' : '' @ strerror err) w
                 in terse TERSE_FAIL (''mode '' @ name v) w))
         else w)"

definition set_times :: "env \<Rightarrow> vnode \<Rightarrow> int \<Rightarrow> int \<Rightarrow> world \<Rightarrow> world" where
  "set_times e v atime mtime w =
     (if \<not> DRY_RUN e then
        (case sys e (OsUtime (name v) atime mtime) w of
           (None, w) \<Rightarrow> w
         | (Some err, w) \<Rightarrow>
             (let w = stderr (''failed to set utime on '' @ name v @ '' : '' @ strerror err) w
              in terse TERSE_FAIL (''utime '' @ name v) w))
      else w)"

subsection \<open>Regular files\<close>

text \<open>
  An open file: its path, the data not yet read and the number of reads made.  A read
  returns the next block of at most the requested size, the empty string at the end of
  the file.  A hash object of \<^verbatim>\<open>hashlib.md5\<close> is the data fed to it so far: its
  digest is the digest of that data.
\<close>

record fileobj =
  fo_path :: path
  fo_rest :: string
  fo_reads :: nat

definition file_open :: "env \<Rightarrow> path \<Rightarrow> world \<Rightarrow> (errno + fileobj) \<times> world" where
  "file_open e p w =
     (case sys e (FileOpen p) w of
        (Some err, w) \<Rightarrow> (Inl err, w)
      | (None, w) \<Rightarrow>
          (case map_of (files w) p of
             None \<Rightarrow> (Inl ENOENT, w)
           | Some n \<Rightarrow> (Inr \<lparr>fo_path = p, fo_rest = ndata n, fo_reads = 0\<rparr>, w)))"

definition file_read ::
  "env \<Rightarrow> fileobj \<Rightarrow> nat \<Rightarrow> world \<Rightarrow> (errno + string) \<times> fileobj \<times> world" where
  "file_read e f n w =
     (case sys e (FileRead (fo_path f) (fo_reads f)) w of
        (Some err, w) \<Rightarrow> (Inl err, f\<lparr>fo_reads := Suc (fo_reads f)\<rparr>, w)
      | (None, w) \<Rightarrow>
          (Inr (take n (fo_rest f)),
           f\<lparr>fo_rest := drop n (fo_rest f), fo_reads := Suc (fo_reads f)\<rparr>, w))"

text \<open>
  The \<^verbatim>\<open>while\<close> loop of \<^verbatim>\<open>_compare_checksums\<close>.  \<open>Inl\<close> is the
  \<^verbatim>\<open>return False\<close> inside the loop; \<open>Inr\<close> is leaving the loop, with the two hash
  objects.
\<close>

function checksum_loop ::
  "env \<Rightarrow> fileobj \<Rightarrow> fileobj \<Rightarrow> string \<Rightarrow> string \<Rightarrow> bool \<Rightarrow> world
   \<Rightarrow> world + (string \<times> string \<times> world)" where
  "checksum_loop e f1 f2 sum1 sum2 ended w =
     (if \<not> ended \<and> md5 e sum1 = md5 e sum2 then
        (case file_read e f1 IO_SIZE w of
           (Inl err, f1', w1) \<Rightarrow>
             Inl (stderr (''error reading file '' @ fo_path f1 @ '': '' @ strerror err) w1)
         | (Inr data1, f1', w1) \<Rightarrow>
             (case file_read e f2 IO_SIZE w1 of
                (Inl err, f2', w2) \<Rightarrow>
                  Inl (stderr (''error reading file '' @ fo_path f2 @ '': '' @ strerror err) w2)
              | (Inr data2, f2', w2) \<Rightarrow>
                  checksum_loop e f1' f2'
                    (if data1 = [] then sum1 else sum1 @ data1)
                    (if data2 = [] then sum2 else sum2 @ data2)
                    (data1 = [] \<or> data2 = []) w2))
      else Inr (sum1, sum2, w))"
  by pat_completeness auto
termination
  apply (relation "measure (\<lambda>(e, f1, f2, sum1, sum2, ended, w).
                     if ended then 0 else Suc (length (fo_rest f1)))")
   apply simp
  apply (auto simp: file_read_def IO_SIZE_def split: prod.splits option.splits)
  done

declare checksum_loop.simps [simp del]

definition compare_checksums :: "env \<Rightarrow> vnode \<Rightarrow> path \<Rightarrow> world \<Rightarrow> bool \<times> world" where
  "compare_checksums e v src_path w =
     (case file_open e src_path w of
        (Inl err, w) \<Rightarrow>
          (True, stderr (''error: failed to open '' @ src_path @ '' : '' @ strerror err) w)
      | (Inr f1, w) \<Rightarrow>
          (case file_open e (name v) w of
             (Inl err, w) \<Rightarrow>
               (False, stderr (''error: failed to open '' @ name v @ '' : '' @ strerror err) w)
           | (Inr f2, w) \<Rightarrow>
               (case checksum_loop e f1 f2 [] [] False w of
                  Inl w \<Rightarrow> (False, w)
                | Inr (sum1, sum2, w) \<Rightarrow>
                    if md5 e sum1 \<noteq> md5 e sum2 then
                      (let w = (if DRY_RUN e then stdout (name v @ '' mismatch (MD5 checksum)'') w
                                else stdout (name v @ '' updated (MD5 mismatch)'') w);
                           w = unix_out (''# updating file '' @ name v) w;
                           w = terse TERSE_SYNC (name v) w
                       in (False, w))
                    else (True, w))))"

definition VNodeFile_compare ::
  "env \<Rightarrow> vnode \<Rightarrow> path \<Rightarrow> syncstat \<Rightarrow> world \<Rightarrow> bool \<times> world" where
  "VNodeFile_compare e v src_path dest_stat w =
     (if fsize (stat v) \<noteq> fsize dest_stat then
        (let w = (if DRY_RUN e then stdout (name v @ '' mismatch (file size)'') w
                  else stdout (name v @ '' updated (file size mismatch)'') w);
             w = terse TERSE_SYNC (name v) w;
             w = unix_out (''# updating file '' @ name v) w
         in (False, w))
      else compare_checksums e v src_path w)"

definition VNodeFile_create :: "env \<Rightarrow> vnode \<Rightarrow> path \<Rightarrow> world \<Rightarrow> world" where
  "VNodeFile_create e v src_path w =
     (let w = (if \<not> exists v then terse TERSE_NEW (name v) w else w);
          w = verbose (dryrun_msg e (''  copy '' @ src_path @ '' '' @ name v)) w;
          w = unix_out (''cp '' @ src_path @ '' '' @ name v) w
      in if \<not> DRY_RUN e then
           (case sys e (ShutilCopy src_path (name v)) w of
              (None, w) \<Rightarrow> w
            | (Some err, w) \<Rightarrow>
                (let w = stderr (''failed to copy '' @ prettypath e src_path @ '' to ''
                                 @ name v @ '': '' @ strerror err) w
                 in terse TERSE_FAIL (name v) w))
         else w)"

subsection \<open>Directories\<close>

definition VNodeDir_create :: "env \<Rightarrow> vnode \<Rightarrow> world \<Rightarrow> world" where
  "VNodeDir_create e v w =
     (case os_path_exists e (name v) w of
        (True, w) \<Rightarrow> w
      | (False, w) \<Rightarrow>
          (let w = verbose (dryrun_msg e (''  os.mkdir('' @ name v @ '')'')) w;
               w = unix_out (''mkdir '' @ name v) w;
               w = terse TERSE_MKDIR (name v) w
           in if \<not> DRY_RUN e then
                (case sys e (OsMkdir (name v) (mode (stat v) AND 4095)) w of
                   (None, w) \<Rightarrow> w
                 | (Some err, w) \<Rightarrow>
                     (let w = stderr (''failed to make directory '' @ name v @ '' : ''
                                      @ strerror err) w
                      in terse TERSE_FAIL (''mkdir '' @ name v) w))
              else w))"

definition VNodeDir_harddelete :: "env \<Rightarrow> vnode \<Rightarrow> world \<Rightarrow> world" where
  "VNodeDir_harddelete e v w =
     (let not_str = (if DRY_RUN e then ''not '' else []);
          w = stdout (not_str @ ''removing '' @ name v @ ''/'') w;
          w = unix_out (''rmdir '' @ name v) w;
          w = terse TERSE_DELETE (name v @ ''/'') w
      in if \<not> DRY_RUN e \<and> \<not> BACKUP_COPIES e then
           (let w = verbose (''  os.rmdir('' @ name v @ '')'') w in
            case sys e (OsRmdir (name v)) w of
              (None, w) \<Rightarrow> w
            | (Some err, w) \<Rightarrow>
                (let w = verbose (''refusing to delete directory '' @ name v) w
                 in move_saved e v w))
         else w)"

definition VNodeDir_quiet_delete :: "env \<Rightarrow> vnode \<Rightarrow> world \<Rightarrow> world" where
  "VNodeDir_quiet_delete e v w =
     (if \<not> DRY_RUN e \<and> \<not> BACKUP_COPIES e then
        (let w = verbose (''  os.rmdir('' @ name v @ '')'') w in
         case sys e (OsRmdir (name v)) w of
           (None, w) \<Rightarrow> w
         | (Some err, w) \<Rightarrow>
             (let w = verbose (''refusing to delete directory '' @ name v) w
              in move_saved e v w))
      else w)"

subsection \<open>Symbolic links\<close>

definition VNodeLink_compare :: "env \<Rightarrow> vnode \<Rightarrow> string \<Rightarrow> world \<Rightarrow> bool \<times> world" where
  "VNodeLink_compare e v oldpath w =
     (if \<not> exists v then (False, w)
      else
        (case os_readlink e (name v) w of
           (Inl err, w) \<Rightarrow>
             (False, stderr (''error reading symlink '' @ name v @ '' : '' @ strerror err) w)
         | (Inr link_to, w) \<Rightarrow>
             if oldpath \<noteq> link_to then
               (let w = stdout (name v @ '' should point to '' @ oldpath
                                @ '', but points to '' @ link_to) w;
                    w = terse TERSE_LINK (name v) w
                in (False, w))
             else (True, w)))"

definition VNodeLink_create :: "env \<Rightarrow> vnode \<Rightarrow> string \<Rightarrow> world \<Rightarrow> world" where
  "VNodeLink_create e v oldpath w =
     (let w = verbose (dryrun_msg e (''  os.symlink('' @ oldpath @ '', '' @ name v @ '')'')) w;
          w = unix_out (''ln -s '' @ oldpath @ '' '' @ name v) w;
          w = terse TERSE_LINK (name v) w
      in if \<not> DRY_RUN e then
           (case sys e (OsSymlink oldpath (name v)) w of
              (None, w) \<Rightarrow> w
            | (Some err, w) \<Rightarrow>
                (let w = stderr (''failed to create symlink '' @ name v @ '' -> '' @ oldpath
                                 @ '' : '' @ strerror err) w
                 in terse TERSE_FAIL (''link '' @ name v) w))
         else w)"

definition VNodeLink_set_owner :: "env \<Rightarrow> vnode \<Rightarrow> world \<Rightarrow> world" where
  "VNodeLink_set_owner e v w =
     (if \<not> has_lchown e then w
      else
        (let w = verbose (dryrun_msg e (''  os.lchown('' @ name v @ '', ''
                                        @ fmt_d (uid (stat v)) @ '', ''
                                        @ fmt_d (gid (stat v)) @ '')'')) w;
             w = unix_out (''lchown '' @ ascii_uid e (uid (stat v)) @ ''.''
                           @ ascii_gid e (gid (stat v)) @ '' '' @ name v) w
         in if \<not> DRY_RUN e then
              (case sys e (OsLchown (name v) (uid (stat v)) (gid (stat v))) w of
                 (None, w) \<Rightarrow> w
               | (Some err, w) \<Rightarrow>
                   (let w = stderr (''failed to lchown '' @ ascii_uid e (uid (stat v)) @ ''.''
                                    @ ascii_gid e (gid (stat v)) @ '' '' @ name v @ '' : ''
                                    @ strerror err) w
                    in terse TERSE_FAIL (''owner '' @ name v) w))
            else w))"

definition VNodeLink_set_permissions :: "env \<Rightarrow> vnode \<Rightarrow> world \<Rightarrow> world" where
  "VNodeLink_set_permissions e v w =
     (if \<not> has_lchmod e then w
      else
        (let w = verbose (dryrun_msg e (''  os.lchmod('' @ name v @ '', ''
                                        @ fmt_04o (mode (stat v) AND 4095) @ '')'')) w;
             w = unix_out (''lchmod 0'' @ fmt_o (mode (stat v) AND 4095) @ '' '' @ name v) w
         in if \<not> DRY_RUN e then
              (case sys e (OsLchmod (name v) (mode (stat v) AND 4095)) w of
                 (None, w) \<Rightarrow> w
               | (Some err, w) \<Rightarrow>
                   (let w = stderr (''failed to lchmod '' @ fmt_04o (mode (stat v) AND 4095)
                                    @ '' '' @ name v @ '' : '' @ strerror err) w
                    in terse TERSE_FAIL (''mode '' @ name v) w))
            else w))"

subsection \<open>Fifos and device files\<close>

definition VNodeFifo_create :: "env \<Rightarrow> vnode \<Rightarrow> world \<Rightarrow> world" where
  "VNodeFifo_create e v w =
     (let w = verbose (dryrun_msg e (''  os.mkfifo('' @ name v @ '')'')) w;
          w = unix_out (''mkfifo '' @ name v) w;
          w = terse TERSE_NEW (name v) w
      in if \<not> DRY_RUN e then
           (case sys e (OsMkfifo (name v) (mode (stat v) AND 511)) w of
              (None, w) \<Rightarrow> w
            | (Some err, w) \<Rightarrow>
                (let w = stderr (''failed to create fifo '' @ name v @ '' : '' @ strerror err) w
                 in terse TERSE_FAIL (''fifo '' @ name v) w))
         else w)"

text \<open>
  \<^verbatim>\<open>VNodeChrDev.compare\<close> and \<^verbatim>\<open>VNodeBlkDev.compare\<close> have the same body, and
  the two \<^verbatim>\<open>create\<close> methods differ in the letter they print and the type they make.
\<close>

definition VNodeDev_compare :: "env \<Rightarrow> vnode \<Rightarrow> statbuf \<Rightarrow> world \<Rightarrow> bool \<times> world" where
  "VNodeDev_compare e v src_stat w =
     (if \<not> exists v then (False, w)
      else
        (case os_lstat e (name v) w of
           (Inl err, w) \<Rightarrow>
             (False, stderr (''error checking '' @ name v @ '' : '' @ strerror err) w)
         | (Inr dest_stat, w) \<Rightarrow>
             (let src_major = os_major (st_rdev src_stat);
                  src_minor = os_minor (st_rdev src_stat);
                  dest_major = os_major (st_rdev dest_stat);
                  dest_minor = os_minor (st_rdev dest_stat)
              in if src_major \<noteq> dest_major \<or> src_minor \<noteq> dest_minor then
                   (let w = stdout (name v @ '' should have major,minor '' @ fmt_d src_major
                                    @ '','' @ fmt_d src_minor @ '' but has ''
                                    @ fmt_d dest_major @ '','' @ fmt_d dest_minor) w;
                        w = unix_out (''# updating major,minor '' @ name v) w;
                        w = terse TERSE_SYNC (name v) w
                    in (False, w))
                 else (True, w))))"

definition VNodeDev_create ::
  "env \<Rightarrow> vnode \<Rightarrow> ftype \<Rightarrow> string \<Rightarrow> string \<Rightarrow> statbuf \<Rightarrow> world \<Rightarrow> world" where
  "VNodeDev_create e v t label letter src_stat w =
     (let major = os_major (st_rdev src_stat);
          minor = os_minor (st_rdev src_stat);
          w = verbose (dryrun_msg e (''  os.mknod('' @ name v @ '', '' @ label @ '' ''
                                     @ fmt_d major @ '','' @ fmt_d minor @ '')'')) w;
          w = unix_out (''mknod '' @ name v @ '' '' @ letter @ '' '' @ fmt_d major @ '' ''
                        @ fmt_d minor) w;
          w = terse TERSE_NEW (name v) w
      in if \<not> DRY_RUN e then
           (case sys e (OsMknod (name v) t (st_mode src_stat AND 511)
                          (os_makedev major minor)) w of
              (None, w) \<Rightarrow> w
            | (Some err, w) \<Rightarrow>
                (let w = stderr (''failed to create device '' @ name v @ '' : ''
                                 @ strerror err) w
                 in terse TERSE_FAIL (''device '' @ name v) w))
         else w)"

subsection \<open>Method dispatch and \<^verbatim>\<open>fix\<close>\<close>

definition compare :: "env \<Rightarrow> vnode \<Rightarrow> path \<Rightarrow> syncstat \<Rightarrow> world \<Rightarrow> bool \<times> world" where
  "compare e v src_path dest_stat w =
     (case kind v of
        VNodeFile src \<Rightarrow> VNodeFile_compare e v src_path dest_stat w
      | VNodeDir \<Rightarrow> (True, w)
      | VNodeLink oldpath \<Rightarrow> VNodeLink_compare e v oldpath w
      | VNodeFifo \<Rightarrow> (True, w)
      | VNodeChrDev src_stat \<Rightarrow> VNodeDev_compare e v src_stat w
      | VNodeBlkDev src_stat \<Rightarrow> VNodeDev_compare e v src_stat w)"

definition create :: "env \<Rightarrow> vnode \<Rightarrow> world \<Rightarrow> world" where
  "create e v w =
     (case kind v of
        VNodeFile src \<Rightarrow> VNodeFile_create e v src w
      | VNodeDir \<Rightarrow> VNodeDir_create e v w
      | VNodeLink oldpath \<Rightarrow> VNodeLink_create e v oldpath w
      | VNodeFifo \<Rightarrow> VNodeFifo_create e v w
      | VNodeChrDev src_stat \<Rightarrow> VNodeDev_create e v CharDev ''CHR'' ''c'' src_stat w
      | VNodeBlkDev src_stat \<Rightarrow> VNodeDev_create e v BlockDev ''BLK'' ''b'' src_stat w)"

definition harddelete :: "env \<Rightarrow> vnode \<Rightarrow> world \<Rightarrow> world" where
  "harddelete e v w =
     (case kind v of VNodeDir \<Rightarrow> VNodeDir_harddelete e v w | _ \<Rightarrow> VNode_harddelete e v w)"

definition quiet_delete :: "env \<Rightarrow> vnode \<Rightarrow> world \<Rightarrow> world" where
  "quiet_delete e v w =
     (case kind v of VNodeDir \<Rightarrow> VNodeDir_quiet_delete e v w | _ \<Rightarrow> VNode_quiet_delete e v w)"

definition set_owner :: "env \<Rightarrow> vnode \<Rightarrow> world \<Rightarrow> world" where
  "set_owner e v w =
     (case kind v of
        VNodeLink oldpath \<Rightarrow> VNodeLink_set_owner e v w
      | _ \<Rightarrow> VNode_set_owner e v w)"

definition set_permissions :: "env \<Rightarrow> vnode \<Rightarrow> world \<Rightarrow> world" where
  "set_permissions e v w =
     (case kind v of
        VNodeLink oldpath \<Rightarrow> VNodeLink_set_permissions e v w
      | _ \<Rightarrow> VNode_set_permissions e v w)"

text \<open>\<^verbatim>\<open>VNode.fix\<close> (\<open>fix\<close> is a keyword here).\<close>

definition VNode_fix :: "env \<Rightarrow> vnode \<Rightarrow> world \<Rightarrow> world" where
  "VNode_fix e v w =
     (let w = (if exists v then
                 (if BACKUP_COPIES e then move_saved e v w else quiet_delete e v w)
               else w);
          w = mkdir_basepath e v w;
          w = create e v w;
          w = set_owner e v w
      in set_permissions e v w)"

section \<open>SyncObject\<close>

text \<open>
  An exception that leaves the code: the \<^verbatim>\<open>OSError\<close> of a system call made outside
  any \<^verbatim>\<open>try\<close>, and the \<^verbatim>\<open>AttributeError\<close> of a method call on \<^verbatim>\<open>None\<close>.
\<close>

datatype exn = OSError errno | AttributeError string

record syncobject =
  src_path :: path
  dest_path :: path
  ov_type :: int
  src_stat :: syncstat
  dest_stat :: syncstat

definition is_file :: "syncstat \<Rightarrow> bool" where
  "is_file s = (entry_exists s \<and> filetype s = File)"

definition is_dir :: "syncstat \<Rightarrow> bool" where
  "is_dir s = (entry_exists s \<and> filetype s = Dir)"

definition is_link :: "syncstat \<Rightarrow> bool" where
  "is_link s = (entry_exists s \<and> filetype s = Symlink)"

definition is_fifo :: "syncstat \<Rightarrow> bool" where
  "is_fifo s = (entry_exists s \<and> filetype s = Fifo)"

definition is_chardev :: "syncstat \<Rightarrow> bool" where
  "is_chardev s = (entry_exists s \<and> filetype s = CharDev)"

definition is_blockdev :: "syncstat \<Rightarrow> bool" where
  "is_blockdev s = (entry_exists s \<and> filetype s = BlockDev)"

definition make :: "env \<Rightarrow> path \<Rightarrow> path \<Rightarrow> syncobject \<Rightarrow> world \<Rightarrow> syncobject \<times> world" where
  "make e src_dir dest_dir so w =
     (let sp = path_join src_dir (src_path so) in
      case SyncStat e sp w of
        (ss, w) \<Rightarrow>
          (let dp = path_join dest_dir (dest_path so) in
           case SyncStat e dp w of
             (ds, w) \<Rightarrow>
               (so\<lparr>src_path := sp, src_stat := ss, dest_path := dp, dest_stat := ds\<rparr>, w)))"

definition print_src :: "env \<Rightarrow> syncobject \<Rightarrow> string" where
  "print_src e so =
     (if is_dir (src_stat so) then prettypath e (src_path so) @ ''/''
      else prettypath e (src_path so))"

text \<open>
  \<^verbatim>\<open>vnode_obj\<close>: the handler for the type of the source, \<^verbatim>\<open>None\<close> when the link
  target of the source cannot be read or the type is none of the six.  The
  \<^verbatim>\<open>os.stat\<close> of a device source stands outside any \<^verbatim>\<open>try\<close>.
\<close>

definition vnode_obj :: "env \<Rightarrow> syncobject \<Rightarrow> world \<Rightarrow> (exn + vnode option) \<times> world" where
  "vnode_obj e so w =
     (let ex = entry_exists (dest_stat so);
          mk = (\<lambda>k. \<lparr>name = dest_path so, stat = src_stat so, exists = ex, kind = k\<rparr>)
      in if is_file (src_stat so) then (Inr (Some (mk (VNodeFile (src_path so)))), w)
         else if is_dir (src_stat so) then (Inr (Some (mk VNodeDir)), w)
         else if is_link (src_stat so) then
           (case os_readlink e (src_path so) w of
              (Inl err, w) \<Rightarrow>
                (let w = stderr (''error reading symlink '' @ print_src e so @ '' : ''
                                 @ strerror err) w;
                     w = terse TERSE_FAIL (src_path so) w
                 in (Inr None, w))
            | (Inr oldpath, w) \<Rightarrow> (Inr (Some (mk (VNodeLink oldpath))), w))
         else if is_fifo (src_stat so) then (Inr (Some (mk VNodeFifo)), w)
         else if is_chardev (src_stat so) then
           (case os_stat e (src_path so) w of
              (Inl err, w) \<Rightarrow> (Inl (OSError err), w)
            | (Inr sb, w) \<Rightarrow> (Inr (Some (mk (VNodeChrDev sb))), w))
         else if is_blockdev (src_stat so) then
           (case os_stat e (src_path so) w of
              (Inl err, w) \<Rightarrow> (Inl (OSError err), w)
            | (Inr sb, w) \<Rightarrow> (Inr (Some (mk (VNodeBlkDev sb))), w))
         else (Inr None, w))"

definition none_has_no :: "string \<Rightarrow> exn" where
  "none_has_no attr = AttributeError (''NoneType object has no attribute '' @ attr)"

text \<open>
  The tail of \<^verbatim>\<open>check\<close>: owner and permissions of an entry whose content is right.
\<close>

definition check_metadata :: "env \<Rightarrow> syncobject \<Rightarrow> vnode \<Rightarrow> world \<Rightarrow> bool \<times> world" where
  "check_metadata e so v w =
     (let ss = src_stat so; ds = dest_stat so;
          r1 = (if uid ss \<noteq> uid ds \<or> gid ss \<noteq> gid ds then
                  (let w = stdout (dest_path so @ '' should have owner '' @ ascii_uid e (uid ss)
                                   @ ''.'' @ ascii_gid e (gid ss) @ '' ('' @ fmt_d (uid ss)
                                   @ ''.'' @ fmt_d (gid ss) @ ''), but has ''
                                   @ ascii_uid e (uid ds) @ ''.'' @ ascii_gid e (gid ds)
                                   @ '' ('' @ fmt_d (uid ds) @ ''.'' @ fmt_d (gid ds) @ '')'') w;
                       w = terse TERSE_OWNER (ascii_uid e (uid ss) @ ''.''
                                              @ ascii_gid e (gid ss) @ '' '' @ dest_path so) w;
                       w = log (''set owner '' @ ascii_uid e (uid ss) @ ''.''
                                @ ascii_gid e (gid ss) @ '' ('' @ fmt_d (uid ss) @ ''.''
                                @ fmt_d (gid ss) @ '') '' @ dest_path so) w;
                       w = set_owner e v w
                   in (True, w))
                else (False, w));
          meta_updated = fst r1; w = snd r1
      in if mode ss \<noteq> mode ds then
           (let w = stdout (dest_path so @ '' should have mode '' @ fmt_04o (mode ss AND 4095)
                            @ '', but has '' @ fmt_04o (mode ds AND 4095)) w;
                w = terse TERSE_MODE (fmt_04o (mode ss AND 4095) @ '' '' @ dest_path so) w;
                w = log (''set mode '' @ fmt_04o (mode ss AND 4095) @ '' '' @ dest_path so) w;
                w = set_permissions e v w
            in (True, w))
         else (meta_updated, w))"

definition check :: "env \<Rightarrow> syncobject \<Rightarrow> world \<Rightarrow> (exn + bool \<times> bool) \<times> world" where
  "check e so w =
     (if \<not> entry_exists (dest_stat so) then
        (let w = stdout (dest_path so @ '' does not exist'') w;
             w = log (''creating '' @ dest_path so) w
         in case vnode_obj e so w of
              (Inl x, w) \<Rightarrow> (Inl x, w)
            | (Inr None, w) \<Rightarrow> (Inl (none_has_no ''fix''), w)
            | (Inr (Some v), w) \<Rightarrow> (Inr (True, False), VNode_fix e v w))
      else if filetype (src_stat so) \<noteq> filetype (dest_stat so) then
        (case vnode_obj e so w of
           (Inl x, w) \<Rightarrow> (Inl x, w)
         | (Inr None, w) \<Rightarrow> (Inl (none_has_no ''typename''), w)
         | (Inr (Some v), w) \<Rightarrow>
             (let w = stdout (dest_path so @ '' should be a '' @ typename v) w;
                  w = terse TERSE_WARNING (''wrong type '' @ dest_path so) w;
                  w = log (''fix type '' @ dest_path so) w
              in (Inr (True, False), VNode_fix e v w)))
      else
        (case vnode_obj e so w of
           (Inl x, w) \<Rightarrow> (Inl x, w)
         | (Inr None, w) \<Rightarrow> (Inl (none_has_no ''compare''), w)
         | (Inr (Some v), w) \<Rightarrow>
             (case compare e v (src_path so) (dest_stat so) w of
                (False, w) \<Rightarrow>
                  (let w = log (''updating '' @ dest_path so) w
                   in (Inr (True, False), VNode_fix e v w))
              | (True, w) \<Rightarrow>
                  (case check_metadata e so v w of
                     (meta_updated, w) \<Rightarrow> (Inr (False, meta_updated), w)))))"

section \<open>Example inputs\<close>

text \<open>
  A small environment and file system on which the theorems below are instantiated.
  The example digest keeps the last sixteen bytes of the data; it stands in for MD5,
  which is a parameter of every theorem.
\<close>

definition ex_env :: env where
  "ex_env =
     \<lparr>DRY_RUN = False, VERBOSE = False, UNIX_CMD = False, BACKUP_COPIES = False,
      has_lchown = True, has_lchmod = False, md5 = (\<lambda>s. drop (length s - 16) s),
      dryrun_msg = (\<lambda>s. s), prettypath = (\<lambda>s. s), ascii_uid = fmt_d, ascii_gid = fmt_d,
      euid = 0, egid = 0, umask = 18\<rparr>"

definition ex_node :: "ftype \<Rightarrow> int \<Rightarrow> int \<Rightarrow> string \<Rightarrow> node" where
  "ex_node t perm owner d =
     \<lparr>ntype = t, nperm = perm, nuid = owner, ngid = owner, ndata = d, ntarget = [],
      nrdev = (0, 0), natime = 0, nmtime = 0\<rparr>"

definition ex_world :: "(path \<times> node) list \<Rightarrow> world" where
  "ex_world fs = \<lparr>files = fs, faults = (\<lambda>c. None), trace = [], out = []\<rparr>"

definition ex_vnode :: "path \<Rightarrow> node \<Rightarrow> bool \<Rightarrow> vkind \<Rightarrow> vnode" where
  "ex_vnode p n ex k = \<lparr>name = p, stat = snapshot n, exists = ex, kind = k\<rparr>"

definition ex_tree :: "(path \<times> node) list" where
  "ex_tree =
     [(''/etc/app'', ex_node Dir 493 0 []),
      (''/etc/app/conf'', ex_node File 420 0 ''x=1''),
      (''/etc/motd'', ex_node File 420 0 ''hello'')]"

definition ex_link :: node where
  "ex_link = (ex_node Symlink 511 0 [])\<lparr>ntarget := ''/bin/bash''\<rparr>"

definition ex_so :: "path \<Rightarrow> syncstat \<Rightarrow> path \<Rightarrow> syncstat \<Rightarrow> syncobject" where
  "ex_so sp ss dp ds =
     \<lparr>src_path = sp, dest_path = dp, ov_type = 0, src_stat = ss, dest_stat = ds\<rparr>"

definition ex_fault :: "syscall \<Rightarrow> errno \<Rightarrow> world \<Rightarrow> world" where
  "ex_fault c err w = w\<lparr>faults := (\<lambda>x. if x = c then Some err else None)\<rparr>"

definition ex_pair :: "(path \<times> node) list" where
  "ex_pair =
     [(''/src/motd'', ex_node File 420 0 ''hello''),
      (''/etc/motd'', ex_node File 420 0 ''jello'')]"

definition ex_motd :: vnode where
  "ex_motd = ex_vnode ''/etc/motd'' (ex_node File 420 0 ''hello'') True (VNodeFile ''/src/motd'')"

definition ex_app :: vnode where
  "ex_app = ex_vnode ''/etc/app'' (ex_node Dir 493 0 []) True VNodeDir"

definition ex_motd_so :: syncobject where
  "ex_motd_so =
     ex_so ''/src/motd'' (snapshot (ex_node File 420 0 ''hello''))
           ''/etc/motd'' (snapshot (ex_node File 420 0 ''jello''))"

definition ex_owned :: "(path \<times> node) list" where
  "ex_owned =
     [(''/src/motd'', ex_node File 420 0 ''hello''),
      (''/etc/motd'', ex_node File 420 500 ''hello'')]"

definition ex_owned_so :: syncobject where
  "ex_owned_so =
     ex_so ''/src/motd'' (snapshot (ex_node File 420 0 ''hello''))
           ''/etc/motd'' (snapshot (ex_node File 420 500 ''hello''))"


text \<open>A socket in the repository, for a destination that does not exist.\<close>

definition ex_sock_so :: syncobject where
  "ex_sock_so = ex_so ''/src/sock'' (snapshot (ex_node Unknown 420 0 [])) ''/tmp/sock'' no_entry"


section \<open>Vocabulary of the theorems\<close>

text \<open>
  \<open>new_calls w w'\<close> are the system calls issued between the worlds \<open>w\<close> and \<open>w'\<close>;
  \<open>quiet w w'\<close> says that \<open>w'\<close> comes from \<open>w\<close> without any mutating call: the
  file system is the same and the trace has grown by calls that only read.
\<close>

definition new_calls :: "world \<Rightarrow> world \<Rightarrow> syscall list" where
  "new_calls w w' = map fst (drop (length (trace w)) (trace w'))"

definition quiet :: "world \<Rightarrow> world \<Rightarrow> bool" where
  "quiet w w' =
     (files w' = files w \<and> faults w' = faults w \<and>
      take (length (trace w)) (trace w') = trace w \<and>
      list_all (\<lambda>c. \<not> mutating c) (new_calls w w'))"

text \<open>
  The loop of \<^verbatim>\<open>_compare_checksums\<close> once more, as a function of the digest, the
  injected faults and the two open files only: \<open>None\<close> when a read fails, else the two
  hash objects on leaving the loop.  \<open>checksum_loop_pure\<close> below shows that it is what
  \<open>checksum_loop\<close> computes.
\<close>

function digest_loop ::
  "(string \<Rightarrow> string) \<Rightarrow> (syscall \<Rightarrow> errno option) \<Rightarrow> fileobj \<Rightarrow> fileobj
   \<Rightarrow> string \<Rightarrow> string \<Rightarrow> bool \<Rightarrow> (string \<times> string) option" where
  "digest_loop h flt f1 f2 sum1 sum2 ended =
     (if \<not> ended \<and> h sum1 = h sum2 then
        (if flt (FileRead (fo_path f1) (fo_reads f1)) \<noteq> None
            \<or> flt (FileRead (fo_path f2) (fo_reads f2)) \<noteq> None then None
         else
           digest_loop h flt
             (f1\<lparr>fo_rest := drop IO_SIZE (fo_rest f1), fo_reads := Suc (fo_reads f1)\<rparr>)
             (f2\<lparr>fo_rest := drop IO_SIZE (fo_rest f2), fo_reads := Suc (fo_reads f2)\<rparr>)
             (sum1 @ take IO_SIZE (fo_rest f1)) (sum2 @ take IO_SIZE (fo_rest f2))
             (fo_rest f1 = [] \<or> fo_rest f2 = []))
      else Some (sum1, sum2))"
  by pat_completeness auto
termination
  apply (relation "measure (\<lambda>(h, flt, f1, f2, sum1, sum2, ended).
                     if ended then 0 else Suc (length (fo_rest f1)))")
   apply simp
  apply (auto simp: IO_SIZE_def)
  done

declare digest_loop.simps [simp del]

definition loop_verdict :: "world + (string \<times> string \<times> world) \<Rightarrow> (string \<times> string) option" where
  "loop_verdict r = (case r of Inl w \<Rightarrow> None | Inr (sum1, sum2, w) \<Rightarrow> Some (sum1, sum2))"

definition loop_world :: "world + (string \<times> string \<times> world) \<Rightarrow> world" where
  "loop_world r = (case r of Inl w \<Rightarrow> w | Inr (sum1, sum2, w) \<Rightarrow> w)"

text \<open>
  What \<^verbatim>\<open>_compare_checksums\<close> answers, from the results of the two \<^verbatim>\<open>open\<close>
  calls: \<open>compare_checksums_verdict\<close> below.
\<close>

definition checksum_verdict ::
  "(string \<Rightarrow> string) \<Rightarrow> (syscall \<Rightarrow> errno option) \<Rightarrow> errno + fileobj \<Rightarrow> errno + fileobj \<Rightarrow> bool"
  where
  "checksum_verdict h flt o1 o2 =
     (case o1 of
        Inl err \<Rightarrow> True
      | Inr f1 \<Rightarrow>
          (case o2 of
             Inl err \<Rightarrow> False
           | Inr f2 \<Rightarrow>
               (case digest_loop h flt f1 f2 [] [] False of
                  None \<Rightarrow> False
                | Some (sum1, sum2) \<Rightarrow> h sum1 = h sum2)))"

text \<open>
  The two facets of the metadata that \<^verbatim>\<open>check\<close> tests, and what \<^verbatim>\<open>check\<close>
  returns as a function of the handler built and of the verdict of \<^verbatim>\<open>compare\<close>, both
  taken on the world \<^verbatim>\<open>check\<close> starts in: \<open>check_decision\<close> below.
\<close>

definition owner_differs :: "syncobject \<Rightarrow> bool" where
  "owner_differs so =
     (uid (src_stat so) \<noteq> uid (dest_stat so) \<or> gid (src_stat so) \<noteq> gid (dest_stat so))"

definition mode_differs :: "syncobject \<Rightarrow> bool" where
  "mode_differs so = (mode (src_stat so) \<noteq> mode (dest_stat so))"

definition check_flags :: "env \<Rightarrow> syncobject \<Rightarrow> world \<Rightarrow> exn + bool \<times> bool" where
  "check_flags e so w =
     (case fst (vnode_obj e so w) of
        Inl x \<Rightarrow> Inl x
      | Inr None \<Rightarrow>
          Inl (none_has_no
                 (if \<not> entry_exists (dest_stat so) then ''fix''
                  else if filetype (src_stat so) \<noteq> filetype (dest_stat so) then ''typename''
                  else ''compare''))
      | Inr (Some v) \<Rightarrow>
          if \<not> entry_exists (dest_stat so) then Inr (True, False)
          else if filetype (src_stat so) \<noteq> filetype (dest_stat so) then Inr (True, False)
          else if fst (compare e v (src_path so) (dest_stat so) w)
            then Inr (False, owner_differs so \<or> mode_differs so)
          else Inr (True, False))"

text \<open>
  \<open>handler_for so v\<close>: the handler \<open>v\<close> is the one \<^verbatim>\<open>vnode_obj\<close> builds for the type of
  the source of \<open>so\<close>.  \<open>content_differs\<close>: that handler's \<^verbatim>\<open>compare\<close> answers false.
\<close>

definition handler_for :: "syncobject \<Rightarrow> vnode \<Rightarrow> bool" where
  "handler_for so v =
     (name v = dest_path so \<and> stat v = src_stat so \<and>
      exists v = entry_exists (dest_stat so) \<and>
      (case kind v of
         VNodeFile sp \<Rightarrow> filetype (src_stat so) = File \<and> sp = src_path so
       | VNodeDir \<Rightarrow> filetype (src_stat so) = Dir
       | VNodeLink oldpath \<Rightarrow> filetype (src_stat so) = Symlink
       | VNodeFifo \<Rightarrow> filetype (src_stat so) = Fifo
       | VNodeChrDev sb \<Rightarrow> filetype (src_stat so) = CharDev
       | VNodeBlkDev sb \<Rightarrow> filetype (src_stat so) = BlockDev))"

definition content_differs :: "env \<Rightarrow> syncobject \<Rightarrow> world \<Rightarrow> bool" where
  "content_differs e so w =
     (case fst (vnode_obj e so w) of
        Inr (Some v) \<Rightarrow> \<not> fst (compare e v (src_path so) (dest_stat so) w)
      | _ \<Rightarrow> False)"

text \<open>The system calls that \<^verbatim>\<open>set_owner\<close> and \<^verbatim>\<open>set_permissions\<close> issue.\<close>

definition owner_calls :: "env \<Rightarrow> vnode \<Rightarrow> syscall list" where
  "owner_calls e v =
     (if DRY_RUN e then []
      else case kind v of
        VNodeLink oldpath \<Rightarrow>
          if has_lchown e then [OsLchown (name v) (uid (stat v)) (gid (stat v))] else []
      | _ \<Rightarrow> [OsChown (name v) (uid (stat v)) (gid (stat v))])"

definition mode_calls :: "env \<Rightarrow> vnode \<Rightarrow> syscall list" where
  "mode_calls e v =
     (if DRY_RUN e then []
      else case kind v of
        VNodeLink oldpath \<Rightarrow>
          if has_lchmod e then [OsLchmod (name v) (mode (stat v) AND 4095)] else []
      | _ \<Rightarrow> [OsChmod (name v) (mode (stat v) AND 4095)])"












section \<open>Frame lemmas\<close>

lemmas report_defs = stdout_def stderr_def verbose_def unix_out_def terse_def log_def

lemma report_frame [simp]:
  "files (stdout s w) = files w" "faults (stdout s w) = faults w" "trace (stdout s w) = trace w"
  "files (stderr s w) = files w" "faults (stderr s w) = faults w" "trace (stderr s w) = trace w"
  "files (verbose s w) = files w" "faults (verbose s w) = faults w" "trace (verbose s w) = trace w"
  "files (unix_out s w) = files w" "faults (unix_out s w) = faults w" "trace (unix_out s w) = trace w"
  "files (terse c s w) = files w" "faults (terse c s w) = faults w" "trace (terse c s w) = trace w"
  "files (log s w) = files w" "faults (log s w) = faults w" "trace (log s w) = trace w"
  by (simp_all add: report_defs)

lemma report_out [simp]:
  "out (stdout s w) = out w @ [Stdout s]"
  "out (stderr s w) = out w @ [Stderr s]"
  "out (verbose s w) = out w @ [Verbose s]"
  "out (unix_out s w) = out w @ [UnixOut s]"
  "out (terse c s w) = out w @ [Terse c s]"
  "out (log s w) = out w @ [Log s]"
  by (simp_all add: report_defs)

lemma outcome_report [simp]:
  "outcome (stdout s w) c = outcome w c"
  "outcome (stderr s w) c = outcome w c"
  "outcome (verbose s w) c = outcome w c"
  "outcome (unix_out s w) c = outcome w c"
  "outcome (terse t s w) c = outcome w c"
  "outcome (log s w) c = outcome w c"
  by (simp_all add: outcome_def split: option.splits)

lemma perform_frame [simp]:
  "faults (perform e c w) = faults w"
  "out (perform e c w) = out w"
  "trace (perform e c w) = trace w @ [(c, outcome w c)]"
  by (simp_all add: perform_def)

lemma perform_files:
  "files (perform e c w) = (if outcome w c = None then effect e c (files w) else files w)"
  by (simp add: perform_def)

section \<open>Deleting a directory with backup copies enabled (C10)\<close>

text \<open>
  C10.  With backup copies enabled and dry-run off, \<^verbatim>\<open>VNodeDir.harddelete\<close> issues no
  system call at all: the file system and the trace are as before, so the directory is
  neither removed nor renamed.  It still reports: the message on stdout, the
  \<^verbatim>\<open>rmdir\<close> line for the shell log, the terse delete tag.  The base class method, which
  every other handler inherits, issues its \<^verbatim>\<open>unlink\<close> whatever the backup setting.
\<close>

theorem dir_harddelete_with_backups_is_noop:
  assumes "BACKUP_COPIES e" and "\<not> DRY_RUN e" and "kind v = VNodeDir" and "kind u \<noteq> VNodeDir"
  shows "files (harddelete e v w) = files w \<and> trace (harddelete e v w) = trace w \<and>
         out (harddelete e v w) =
           out w @ [Stdout (''removing '' @ name v @ ''/''), UnixOut (''rmdir '' @ name v),
                    Terse TERSE_DELETE (name v @ ''/'')] \<and>
         trace (harddelete e u w) =
           trace w @ [(OsUnlink (name u), outcome w (OsUnlink (name u)))]"
proof -
  have d: "harddelete e v w = VNodeDir_harddelete e v w"
    using assms(3) by (simp add: harddelete_def)
  have f: "harddelete e u w = VNode_harddelete e u w"
    using assms(4) by (cases "kind u") (simp_all add: harddelete_def)
  have "trace (VNode_harddelete e u w) =
          trace w @ [(OsUnlink (name u), outcome w (OsUnlink (name u)))]"
    using assms(2) by (simp add: VNode_harddelete_def sys_def Let_def split: option.splits)
  moreover have "files (VNodeDir_harddelete e v w) = files w"
    and "trace (VNodeDir_harddelete e v w) = trace w"
    and "out (VNodeDir_harddelete e v w) =
           out w @ [Stdout (''removing '' @ name v @ ''/''), UnixOut (''rmdir '' @ name v),
                    Terse TERSE_DELETE (name v @ ''/'')]"
    using assms(1,2) by (simp_all add: VNodeDir_harddelete_def Let_def)
  ultimately show ?thesis
    by (simp add: d f)
qed

theorem dir_harddelete_with_backups_is_noop_witness:
  "BACKUP_COPIES (ex_env\<lparr>BACKUP_COPIES := True\<rparr>) \<and>
   files (harddelete (ex_env\<lparr>BACKUP_COPIES := True\<rparr>)
            (ex_vnode ''/etc/app'' (ex_node Dir 493 0 []) True VNodeDir) (ex_world ex_tree))
     = ex_tree \<and>
   trace (harddelete (ex_env\<lparr>BACKUP_COPIES := True\<rparr>)
            (ex_vnode ''/etc/app'' (ex_node Dir 493 0 []) True VNodeDir) (ex_world ex_tree))
     = [] \<and>
   trace (harddelete (ex_env\<lparr>BACKUP_COPIES := True\<rparr>)
            (ex_vnode ''/etc/motd'' (ex_node File 420 0 ''hello'') True (VNodeFile ''/src/motd''))
            (ex_world ex_tree))
     = [(OsUnlink ''/etc/motd'', None)]"
  using dir_harddelete_with_backups_is_noop
    [of "ex_env\<lparr>BACKUP_COPIES := True\<rparr>"
        "ex_vnode ''/etc/app'' (ex_node Dir 493 0 []) True VNodeDir"
        "ex_vnode ''/etc/motd'' (ex_node File 420 0 ''hello'') True (VNodeFile ''/src/motd'')"
        "ex_world ex_tree"]
  by (simp add: ex_env_def ex_vnode_def ex_world_def ex_tree_def ex_node_def outcome_def)

section \<open>Handlers that cannot be built (C8)\<close>

lemma effect_readonly: "\<not> mutating c \<Longrightarrow> effect e c fs = fs"
  by (cases c) simp_all

lemma perform_readonly_files [simp]: "\<not> mutating c \<Longrightarrow> files (perform e c w) = files w"
  by (simp add: perform_def effect_readonly)

lemma outcome_perform_readonly [simp]:
  "\<not> mutating c \<Longrightarrow> outcome (perform e c w) c' = outcome w c'"
  by (simp add: outcome_def split: option.splits)

lemma outcome_eqI: "files w' = files w \<Longrightarrow> faults w' = faults w \<Longrightarrow> outcome w' c = outcome w c"
  by (simp add: outcome_def split: option.splits)

lemma vnode_obj_link_unreadable:
  assumes "is_link (src_stat so)" and "outcome w (OsReadlink (src_path so)) = Some err"
  shows "fst (vnode_obj e so w) = Inr None"
  using assms
  by (simp add: vnode_obj_def is_link_def is_file_def is_dir_def os_readlink_def sys_def Let_def)

lemma vnode_obj_unknown:
  assumes "filetype (src_stat so) = Unknown"
  shows "vnode_obj e so w = (Inr None, w)"
  using assms
  by (simp add: vnode_obj_def is_link_def is_file_def is_dir_def is_fifo_def is_chardev_def
      is_blockdev_def Let_def)

lemma fst_eqD: "fst p = a \<Longrightarrow> p = (a, snd p)"
  by (cases p) simp

lemma check_without_handler:
  assumes "\<And>w'. files w' = files w \<Longrightarrow> faults w' = faults w \<Longrightarrow> fst (vnode_obj e so w') = Inr None"
  shows "\<exists>a. fst (check e so w) = Inl (AttributeError a)"
proof -
  let ?w1 = "log (''creating '' @ dest_path so) (stdout (dest_path so @ '' does not exist'') w)"
  have a: "vnode_obj e so ?w1 = (Inr None, snd (vnode_obj e so ?w1))"
    by (rule fst_eqD) (simp add: assms)
  have b: "vnode_obj e so w = (Inr None, snd (vnode_obj e so w))"
    by (rule fst_eqD) (simp add: assms)
  show ?thesis
    unfolding check_def Let_def
    by (subst a, subst b, subst b) (simp add: none_has_no_def)
qed

text \<open>
  C8.  The claim is that \<^verbatim>\<open>check\<close> never raises.  It does: \<^verbatim>\<open>vnode_obj\<close> catches
  the failure to read the link target of the source, reports it and returns
  \<^verbatim>\<open>None\<close>, and \<^verbatim>\<open>check\<close> calls a method on that \<^verbatim>\<open>None\<close>.  The same happens
  for a source whose type is none of the six.
\<close>

theorem check_raises_without_handler:
  "(is_link (src_stat so) \<and> outcome w (OsReadlink (src_path so)) = Some err
      \<longrightarrow> (\<exists>a. fst (check e so w) = Inl (AttributeError a))) \<and>
   (filetype (src_stat so) = Unknown \<longrightarrow> (\<exists>a. fst (check e so w) = Inl (AttributeError a)))"
proof (intro conjI impI)
  assume h: "is_link (src_stat so) \<and> outcome w (OsReadlink (src_path so)) = Some err"
  have "fst (vnode_obj e so w') = Inr None" if "files w' = files w" "faults w' = faults w" for w'
  proof -
    have "outcome w' (OsReadlink (src_path so)) = Some err"
      using h outcome_eqI [OF that, of "OsReadlink (src_path so)"] by simp
    with h show ?thesis
      by (simp add: vnode_obj_link_unreadable)
  qed
  then show "\<exists>a. fst (check e so w) = Inl (AttributeError a)"
    by (rule check_without_handler)
next
  assume "filetype (src_stat so) = Unknown"
  then have "fst (vnode_obj e so w') = Inr None" for w'
    by (simp add: vnode_obj_unknown)
  then show "\<exists>a. fst (check e so w) = Inl (AttributeError a)"
    by (rule check_without_handler)
qed

theorem check_raises_without_handler_witness:
  "is_link (snapshot ex_link) \<and>
   outcome (ex_world ex_tree) (OsReadlink ''/src/sh'') = Some ENOENT \<and>
   fst (check ex_env (ex_so ''/src/sh'' (snapshot ex_link) ''/bin/sh'' no_entry) (ex_world ex_tree))
     = Inl (AttributeError ''NoneType object has no attribute fix'') \<and>
   (\<exists>a. fst (check ex_env (ex_so ''/src/sock'' (snapshot (ex_node Unknown 420 0 []))
                              ''/tmp/sock'' no_entry) (ex_world ex_tree))
          = Inl (AttributeError a))"
proof -
  have 1: "is_link (snapshot ex_link)"
    by (simp add: is_link_def snapshot_def ex_link_def ex_node_def)
  have 2: "outcome (ex_world ex_tree) (OsReadlink ''/src/sh'') = Some ENOENT"
    by (simp add: outcome_def ex_world_def ex_tree_def)
  have 3: "fst (check ex_env (ex_so ''/src/sh'' (snapshot ex_link) ''/bin/sh'' no_entry)
                 (ex_world ex_tree))
           = Inl (AttributeError ''NoneType object has no attribute fix'')"
    using 1 2
    by (simp add: check_def ex_so_def no_entry_def Let_def vnode_obj_def is_file_def is_dir_def
        is_link_def os_readlink_def sys_def none_has_no_def snapshot_def ex_link_def ex_node_def)
  have 4: "\<exists>a. fst (check ex_env (ex_so ''/src/sock'' (snapshot (ex_node Unknown 420 0 []))
                              ''/tmp/sock'' no_entry) (ex_world ex_tree))
          = Inl (AttributeError a)"
    using check_raises_without_handler
      [of "ex_so ''/src/sock'' (snapshot (ex_node Unknown 420 0 [])) ''/tmp/sock'' no_entry"
          "ex_world ex_tree" ENOENT ex_env]
    by (simp add: ex_so_def snapshot_def ex_node_def)
  have 5: "\<exists>a. fst (check ex_env (ex_so ''/src/sh'' (snapshot ex_link) ''/bin/sh'' no_entry)
                        (ex_world ex_tree)) = Inl (AttributeError a)"
    using 1 2 check_raises_without_handler
      [of "ex_so ''/src/sh'' (snapshot ex_link) ''/bin/sh'' no_entry" "ex_world ex_tree" ENOENT
          ex_env]
    by (simp add: ex_so_def)
  show ?thesis
    using 1 2 3 4 5 by simp
qed

section \<open>Comparing regular files\<close>

subsection \<open>Errors while opening and reading (C2)\<close>

lemma file_open_fail:
  "outcome w (FileOpen p) = Some err \<Longrightarrow>
     file_open e p w = (Inl err, perform e (FileOpen p) w)"
  by (simp add: file_open_def sys_def)

lemma file_open_ok:
  assumes "outcome w (FileOpen p) = None"
  shows "\<exists>n. map_of (files w) p = Some n \<and>
          file_open e p w =
            (Inr \<lparr>fo_path = p, fo_rest = ndata n, fo_reads = 0\<rparr>, perform e (FileOpen p) w)"
proof -
  from assms have "map_of (files w) p \<noteq> None"
    by (auto simp: outcome_def split: option.splits)
  then obtain n where "map_of (files w) p = Some n"
    by auto
  then show ?thesis
    using assms by (simp add: file_open_def sys_def)
qed

lemma file_read_fail:
  "outcome w (FileRead (fo_path f) (fo_reads f)) = Some err \<Longrightarrow>
     fst (file_read e f n w) = Inl err"
  by (simp add: file_read_def sys_def)

lemma file_read_ok:
  "outcome w (FileRead (fo_path f) (fo_reads f)) = None \<Longrightarrow>
     file_read e f n w =
       (Inr (take n (fo_rest f)),
        f\<lparr>fo_rest := drop n (fo_rest f), fo_reads := Suc (fo_reads f)\<rparr>,
        perform e (FileRead (fo_path f) (fo_reads f)) w)"
  by (simp add: file_read_def sys_def)

lemma checksum_loop_first_read_fails:
  assumes "outcome w (FileRead (fo_path f1) (fo_reads f1)) = Some err"
  shows "\<exists>w'. checksum_loop e f1 f2 [] [] False w = Inl w'"
  using assms by (subst checksum_loop.simps) (simp add: file_read_def sys_def)

lemma checksum_loop_second_read_fails:
  assumes "outcome w (FileRead (fo_path f1) (fo_reads f1)) = None"
    and "outcome w (FileRead (fo_path f2) (fo_reads f2)) = Some err"
  shows "\<exists>w'. checksum_loop e f1 f2 [] [] False w = Inl w'"
  using assms by (subst checksum_loop.simps) (simp add: file_read_def sys_def)

text \<open>
  C2.  With equal cached sizes: an error opening the source makes \<^verbatim>\<open>compare\<close> return
  true, an error opening the destination makes it return false, and so does an error
  reading the destination.  An error \<^emph>\<open>reading\<close> the source makes it return false as
  well (third conjunct): the claim says true there, as does the comment at the
  \<^verbatim>\<open>open\<close> of the source (\<^verbatim>\<open>return True because we can't fix an error in src_path\<close>).
\<close>

theorem compare_io_errors:
  assumes "kind v = VNodeFile sp0" and "fsize (stat v) = fsize ds"
  shows "(outcome w (FileOpen sp) = Some err \<longrightarrow> fst (compare e v sp ds w) = True) \<and>
         (outcome w (FileOpen sp) = None \<and> outcome w (FileOpen (name v)) = Some err
            \<longrightarrow> fst (compare e v sp ds w) = False) \<and>
         (outcome w (FileOpen sp) = None \<and> outcome w (FileOpen (name v)) = None \<and>
          outcome w (FileRead sp 0) = Some err
            \<longrightarrow> fst (compare e v sp ds w) = False) \<and>
         (outcome w (FileOpen sp) = None \<and> outcome w (FileOpen (name v)) = None \<and>
          outcome w (FileRead sp 0) = None \<and> outcome w (FileRead (name v) 0) = Some err
            \<longrightarrow> fst (compare e v sp ds w) = False)"
proof -
  have c: "compare e v sp ds w = compare_checksums e v sp w"
    using assms by (simp add: compare_def VNodeFile_compare_def)
  have 1: "fst (compare_checksums e v sp w) = True" if "outcome w (FileOpen sp) = Some err"
    using that by (simp add: compare_checksums_def file_open_fail)
  have 2: "fst (compare_checksums e v sp w) = False"
    if "outcome w (FileOpen sp) = None" "outcome w (FileOpen (name v)) = Some err"
  proof -
    from file_open_ok [OF that(1), of e] obtain n :: node where
      "file_open e sp w = (Inr \<lparr>fo_path = sp, fo_rest = ndata n, fo_reads = 0\<rparr>,
         perform e (FileOpen sp) w)"
      by blast
    then show ?thesis
      using that(2) by (simp add: compare_checksums_def file_open_fail)
  qed
  have 3: "fst (compare_checksums e v sp w) = False"
    if "outcome w (FileOpen sp) = None" "outcome w (FileOpen (name v)) = None"
      and r: "outcome w (FileRead sp 0) = Some err \<or>
          outcome w (FileRead sp 0) = None \<and> outcome w (FileRead (name v) 0) = Some err"
  proof -
    let ?w1 = "perform e (FileOpen sp) w"
    let ?w2 = "perform e (FileOpen (name v)) ?w1"
    from file_open_ok [OF that(1), of e] obtain n1 :: node where
      o1: "file_open e sp w = (Inr \<lparr>fo_path = sp, fo_rest = ndata n1, fo_reads = 0\<rparr>, ?w1)"
      by blast
    have "outcome ?w1 (FileOpen (name v)) = None"
      using that(2) by simp
    from file_open_ok [OF this, of e] obtain n2 :: node where
      o2: "file_open e (name v) ?w1 =
             (Inr \<lparr>fo_path = name v, fo_rest = ndata n2, fo_reads = 0\<rparr>, ?w2)"
      by blast
    have "\<exists>w'. checksum_loop e \<lparr>fo_path = sp, fo_rest = ndata n1, fo_reads = 0\<rparr>
             \<lparr>fo_path = name v, fo_rest = ndata n2, fo_reads = 0\<rparr> [] [] False ?w2 = Inl w'"
      using r
    proof
      assume "outcome w (FileRead sp 0) = Some err"
      then show ?thesis
        by (intro checksum_loop_first_read_fails [where err = err]) simp
    next
      assume "outcome w (FileRead sp 0) = None \<and> outcome w (FileRead (name v) 0) = Some err"
      then show ?thesis
        by (intro checksum_loop_second_read_fails [where err = err]) simp_all
    qed
    then show ?thesis
      using o1 o2 by (auto simp: compare_checksums_def)
  qed
  show ?thesis
    using 1 2 3 by (simp add: c)
qed

theorem compare_io_errors_witness:
  "kind ex_motd = VNodeFile ''/src/motd'' \<and>
   fsize (stat ex_motd) = fsize (snapshot (ex_node File 420 0 ''jello'')) \<and>
   fst (compare ex_env ex_motd ''/src/motd'' (snapshot (ex_node File 420 0 ''jello''))
          (ex_fault (FileOpen ''/src/motd'') EACCES (ex_world ex_pair))) = True \<and>
   fst (compare ex_env ex_motd ''/src/motd'' (snapshot (ex_node File 420 0 ''jello''))
          (ex_fault (FileOpen ''/etc/motd'') EACCES (ex_world ex_pair))) = False \<and>
   fst (compare ex_env ex_motd ''/src/motd'' (snapshot (ex_node File 420 0 ''jello''))
          (ex_fault (FileRead ''/src/motd'' 0) EIO (ex_world ex_pair))) = False \<and>
   fst (compare ex_env ex_motd ''/src/motd'' (snapshot (ex_node File 420 0 ''jello''))
          (ex_fault (FileRead ''/etc/motd'' 0) EIO (ex_world ex_pair))) = False"
proof -
  let ?ds = "snapshot (ex_node File 420 0 ''jello'')"
  have k: "kind ex_motd = VNodeFile ''/src/motd''" "name ex_motd = ''/etc/motd''"
    and z: "fsize (stat ex_motd) = fsize ?ds"
    by (simp_all add: ex_motd_def ex_vnode_def snapshot_def ex_node_def)
  note t = compare_io_errors [OF k(1) z, of _ "''/src/motd''" _ ex_env, unfolded k(2)]
  have a: "fst (compare ex_env ex_motd ''/src/motd'' ?ds
                 (ex_fault (FileOpen ''/src/motd'') EACCES (ex_world ex_pair))) = True"
    using t [of "ex_fault (FileOpen ''/src/motd'') EACCES (ex_world ex_pair)" EACCES]
    by (simp add: outcome_def ex_fault_def ex_world_def)
  have b: "fst (compare ex_env ex_motd ''/src/motd'' ?ds
                 (ex_fault (FileOpen ''/etc/motd'') EACCES (ex_world ex_pair))) = False"
    using t [of "ex_fault (FileOpen ''/etc/motd'') EACCES (ex_world ex_pair)" EACCES]
    by (simp add: outcome_def ex_fault_def ex_world_def ex_pair_def ex_node_def)
  have c: "fst (compare ex_env ex_motd ''/src/motd'' ?ds
                 (ex_fault (FileRead ''/src/motd'' 0) EIO (ex_world ex_pair))) = False"
    using t [of "ex_fault (FileRead ''/src/motd'' 0) EIO (ex_world ex_pair)" EIO]
    by (simp add: outcome_def ex_fault_def ex_world_def ex_pair_def ex_node_def)
  have d: "fst (compare ex_env ex_motd ''/src/motd'' ?ds
                 (ex_fault (FileRead ''/etc/motd'' 0) EIO (ex_world ex_pair))) = False"
    using t [of "ex_fault (FileRead ''/etc/motd'' 0) EIO (ex_world ex_pair)" EIO]
    by (simp add: outcome_def ex_fault_def ex_world_def ex_pair_def ex_node_def)
  show ?thesis
    using k z a b c d by simp
qed

section \<open>Renaming aside\<close>

lemma perform_failed_files [simp]: "outcome w c \<noteq> None \<Longrightarrow> files (perform e c w) = files w"
  by (cases "outcome w c") (simp_all add: perform_def)

lemma outcome_perform_failed [simp]:
  "outcome w c \<noteq> None \<Longrightarrow> outcome (perform e c w) c' = outcome w c'"
  by (rule outcome_eqI) simp_all

lemma not_under_saved [simp]: "\<not> under (a @ ''.saved'') a" "a \<noteq> a @ ''.saved''"
  by (simp_all add: under_def)

lemma relocate_self [simp]: "relocate a b a = b"
  by (simp add: relocate_def)

lemma relocate_not_target:
  "p \<noteq> a \<Longrightarrow> p \<noteq> b \<Longrightarrow> relocate a b p \<noteq> b"
  "p \<noteq> a \<Longrightarrow> p \<noteq> b \<Longrightarrow> b \<noteq> relocate a b p"
  by (auto simp: relocate_def under_def)

lemma relocate_not_source:
  "length a < length b \<Longrightarrow> relocate a b p \<noteq> a"
  "length a < length b \<Longrightarrow> a \<noteq> relocate a b p"
  by (auto simp: relocate_def dest!: arg_cong [where f = length])

lemma rename_files_target:
  assumes "a \<noteq> b" and "\<not> under b a"
  shows "map_of (map (\<lambda>(p, n). (relocate a b p, n))
                  (filter (\<lambda>(p, n). p \<noteq> b \<and> \<not> under b p) fs)) b = map_of fs a"
proof (induction fs)
  case Nil
  show ?case by simp
next
  case (Cons x fs)
  obtain p n where x: "x = (p, n)"
    by (cases x)
  show ?case
  proof (cases "p = a")
    case True
    with assms show ?thesis
      by (simp add: x)
  next
    case False
    with Cons show ?thesis
      by (simp add: x relocate_not_target)
  qed
qed

lemma rename_files_source:
  assumes "length a < length b"
  shows "map_of (map (\<lambda>(p, n). (relocate a b p, n))
                  (filter (\<lambda>(p, n). p \<noteq> b \<and> \<not> under b p) fs)) a = None"
  using assms by (induction fs) (auto simp: relocate_not_source)

lemma rename_target:
  assumes "a \<noteq> b" and "\<not> under b a"
  shows "map_of (effect e (OsRename a b) fs) b = map_of fs a"
  using assms by (simp add: rename_files_target)

lemma rename_source:
  assumes "length a < length b"
  shows "map_of (effect e (OsRename a b) fs) a = None"
  using assms rename_files_source [OF assms] by auto

lemma rmdir_nonempty_fails:
  assumes "is_dir_at (files w) p" and "nonempty_dir (files w) p"
  shows "outcome w (OsRmdir p) \<noteq> None"
  using assms by (auto simp: outcome_def is_dir_at_def split: option.splits)

lemma move_saved_calls:
  "\<not> DRY_RUN e \<Longrightarrow>
     map fst (trace (move_saved e v w)) =
       map fst (trace w) @ [OsRename (name v) (name v @ ''.saved'')]"
  by (simp add: move_saved_def sys_def Let_def split: option.splits)

lemma move_saved_files:
  "\<not> DRY_RUN e \<Longrightarrow>
     files (move_saved e v w) =
       (if outcome w (OsRename (name v) (name v @ ''.saved'')) = None
        then effect e (OsRename (name v) (name v @ ''.saved'')) (files w) else files w)"
  by (simp add: move_saved_def sys_def Let_def perform_files split: option.splits)

text \<open>
  C7.  \<^verbatim>\<open>VNodeDir.harddelete\<close> on a directory that is not empty.  It returns a world
  on every path: the \<^verbatim>\<open>OSError\<close> of \<^verbatim>\<open>os.rmdir\<close> and the one of \<^verbatim>\<open>os.rename\<close>
  are caught, so nothing is raised.  With dry-run off and backup copies off the
  \<^verbatim>\<open>rmdir\<close> fails and the \<^verbatim>\<open>rename\<close> to \<^verbatim>\<open>.saved\<close> is the next and last call; when
  the rename succeeds the entry is found under the new name and no longer under the old
  one; when it fails the file system is as before and the failure is reported on stderr
  and with the terse fail tag.  With backup copies enabled, dry-run off, the method
  announces the removal in the same words and then issues no call at all: the directory
  is neither removed nor moved aside.  In dry-run it issues no call either, and says so.
\<close>

theorem dir_harddelete_nonempty:
  assumes "kind v = VNodeDir"
    and "is_dir_at (files w) (name v)" and "nonempty_dir (files w) (name v)"
  shows "(\<not> DRY_RUN e \<and> \<not> BACKUP_COPIES e \<longrightarrow>
            outcome w (OsRmdir (name v)) \<noteq> None \<and>
            map fst (trace (harddelete e v w)) =
              map fst (trace w) @ [OsRmdir (name v), OsRename (name v) (name v @ ''.saved'')] \<and>
            (outcome w (OsRename (name v) (name v @ ''.saved'')) = None \<longrightarrow>
               map_of (files (harddelete e v w)) (name v @ ''.saved'') = map_of (files w) (name v) \<and>
               map_of (files (harddelete e v w)) (name v) = None) \<and>
            (\<forall>err. outcome w (OsRename (name v) (name v @ ''.saved'')) = Some err \<longrightarrow>
               files (harddelete e v w) = files w \<and>
               out (harddelete e v w) =
                 out w @
                 [Stdout (''removing '' @ name v @ ''/''), UnixOut (''rmdir '' @ name v),
                  Terse TERSE_DELETE (name v @ ''/''),
                  Verbose (''  os.rmdir('' @ name v @ '')''),
                  Verbose (''refusing to delete directory '' @ name v),
                  Verbose (dryrun_msg e (''saving '' @ name v @ '' as '' @ name v @ ''.saved'')),
                  UnixOut (''mv '' @ name v @ '' '' @ name v @ ''.saved''),
                  Verbose (''  os.rename('' @ name v @ '', '' @ name v @ ''.saved)''),
                  Stderr (''failed to save '' @ name v @ '' as '' @ name v @ ''.saved : ''
                          @ strerror err),
                  Terse TERSE_FAIL (''save '' @ name v @ ''.saved'')])) \<and>
         (DRY_RUN e \<or> BACKUP_COPIES e \<longrightarrow>
            files (harddelete e v w) = files w \<and> trace (harddelete e v w) = trace w \<and>
            out (harddelete e v w) =
              out w @
              [Stdout ((if DRY_RUN e then ''not '' else []) @ ''removing '' @ name v @ ''/''),
               UnixOut (''rmdir '' @ name v), Terse TERSE_DELETE (name v @ ''/'')])"
proof (intro conjI impI)
  assume a: "\<not> DRY_RUN e \<and> \<not> BACKUP_COPIES e"
  let ?w0 = "verbose (''  os.rmdir('' @ name v @ '')'')
               (terse TERSE_DELETE (name v @ ''/'')
                 (unix_out (''rmdir '' @ name v)
                   (stdout (''removing '' @ name v @ ''/'') w)))"
  let ?w1 = "perform e (OsRmdir (name v)) ?w0"
  let ?w2 = "verbose (''refusing to delete directory '' @ name v) ?w1"
  let ?mv = "OsRename (name v) (name v @ ''.saved'')"
  show f: "outcome w (OsRmdir (name v)) \<noteq> None"
    using assms(2,3) by (rule rmdir_nonempty_fails)
  then obtain err where err: "outcome w (OsRmdir (name v)) = Some err"
    by auto
  have h: "harddelete e v w = move_saved e v ?w2"
    using assms(1) a err by (simp add: harddelete_def VNodeDir_harddelete_def sys_def Let_def)
  have o: "outcome ?w2 c = outcome w c" for c
    using err by simp
  have fl: "files ?w2 = files w"
    using err by simp
  have t: "map fst (trace ?w2) = map fst (trace w) @ [OsRmdir (name v)]"
    by simp
  show "map fst (trace (harddelete e v w)) = map fst (trace w) @ [OsRmdir (name v), ?mv]"
    using a t by (simp add: h move_saved_calls)
  have ms: "files (harddelete e v w) =
      (if outcome w ?mv = None then effect e ?mv (files w) else files w)"
    using a unfolding h by (simp only: move_saved_files [of e] o fl simp_thms if_True)
  show "map_of (files (harddelete e v w)) (name v @ ''.saved'') = map_of (files w) (name v)"
    if "outcome w ?mv = None"
    using that by (simp add: ms rename_target del: effect.simps)
  show "map_of (files (harddelete e v w)) (name v) = None" if "outcome w ?mv = None"
    using that by (simp add: ms rename_source del: effect.simps)
  show "\<forall>err. outcome w ?mv = Some err \<longrightarrow>
      files (harddelete e v w) = files w \<and>
      out (harddelete e v w) =
        out w @
        [Stdout (''removing '' @ name v @ ''/''), UnixOut (''rmdir '' @ name v),
         Terse TERSE_DELETE (name v @ ''/''),
         Verbose (''  os.rmdir('' @ name v @ '')''),
         Verbose (''refusing to delete directory '' @ name v),
         Verbose (dryrun_msg e (''saving '' @ name v @ '' as '' @ name v @ ''.saved'')),
         UnixOut (''mv '' @ name v @ '' '' @ name v @ ''.saved''),
         Verbose (''  os.rename('' @ name v @ '', '' @ name v @ ''.saved)''),
         Stderr (''failed to save '' @ name v @ '' as '' @ name v @ ''.saved : ''
                 @ strerror err),
         Terse TERSE_FAIL (''save '' @ name v @ ''.saved'')]"
  proof (intro allI impI conjI)
    fix err'
    assume r: "outcome w ?mv = Some err'"
    show "files (harddelete e v w) = files w"
      using r by (simp add: ms)
    have "outcome ?w2 ?mv = Some err'"
      using r by (simp only: o)
    then show "out (harddelete e v w) =
        out w @
        [Stdout (''removing '' @ name v @ ''/''), UnixOut (''rmdir '' @ name v),
         Terse TERSE_DELETE (name v @ ''/''),
         Verbose (''  os.rmdir('' @ name v @ '')''),
         Verbose (''refusing to delete directory '' @ name v),
         Verbose (dryrun_msg e (''saving '' @ name v @ '' as '' @ name v @ ''.saved'')),
         UnixOut (''mv '' @ name v @ '' '' @ name v @ ''.saved''),
         Verbose (''  os.rename('' @ name v @ '', '' @ name v @ ''.saved)''),
         Stderr (''failed to save '' @ name v @ '' as '' @ name v @ ''.saved : ''
                 @ strerror err'),
         Terse TERSE_FAIL (''save '' @ name v @ ''.saved'')]"
      using a unfolding h by (simp add: move_saved_def sys_def Let_def)
  qed
next
  assume "DRY_RUN e \<or> BACKUP_COPIES e"
  then show "files (harddelete e v w) = files w" "trace (harddelete e v w) = trace w"
    "out (harddelete e v w) =
       out w @
       [Stdout ((if DRY_RUN e then ''not '' else []) @ ''removing '' @ name v @ ''/''),
        UnixOut (''rmdir '' @ name v), Terse TERSE_DELETE (name v @ ''/'')]"
    using assms(1) by (auto simp: harddelete_def VNodeDir_harddelete_def Let_def)
qed

theorem dir_harddelete_nonempty_witness:
  "kind ex_app = VNodeDir \<and> \<not> DRY_RUN ex_env \<and> \<not> BACKUP_COPIES ex_env \<and>
   is_dir_at (files (ex_world ex_tree)) (name ex_app) \<and>
   nonempty_dir (files (ex_world ex_tree)) (name ex_app) \<and>
   outcome (ex_world ex_tree) (OsRename ''/etc/app'' ''/etc/app.saved'') = None \<and>
   map_of (files (harddelete ex_env ex_app (ex_world ex_tree))) ''/etc/app.saved''
     = Some (ex_node Dir 493 0 []) \<and>
   map_of (files (harddelete ex_env ex_app (ex_world ex_tree))) ''/etc/app'' = None \<and>
   outcome (ex_fault (OsRename ''/etc/app'' ''/etc/app.saved'') EACCES (ex_world ex_tree))
     (OsRename ''/etc/app'' ''/etc/app.saved'') = Some EACCES \<and>
   files (harddelete ex_env ex_app
            (ex_fault (OsRename ''/etc/app'' ''/etc/app.saved'') EACCES (ex_world ex_tree)))
     = ex_tree \<and>
   BACKUP_COPIES (ex_env\<lparr>BACKUP_COPIES := True\<rparr>) \<and>
   files (harddelete (ex_env\<lparr>BACKUP_COPIES := True\<rparr>) ex_app (ex_world ex_tree)) = ex_tree \<and>
   trace (harddelete (ex_env\<lparr>BACKUP_COPIES := True\<rparr>) ex_app (ex_world ex_tree)) = [] \<and>
   out (harddelete (ex_env\<lparr>BACKUP_COPIES := True\<rparr>) ex_app (ex_world ex_tree)) =
     [Stdout ''removing /etc/app/'', UnixOut ''rmdir /etc/app'', Terse TERSE_DELETE ''/etc/app/'']"
proof -
  let ?w = "ex_world ex_tree"
  let ?wf = "ex_fault (OsRename ''/etc/app'' ''/etc/app.saved'') EACCES (ex_world ex_tree)"
  let ?eb = "ex_env\<lparr>BACKUP_COPIES := True\<rparr>"
  have n: "name ex_app = ''/etc/app''" and k: "kind ex_app = VNodeDir"
    by (simp_all add: ex_app_def ex_vnode_def)
  have e: "\<not> DRY_RUN ex_env" "\<not> BACKUP_COPIES ex_env" "\<not> DRY_RUN ?eb" "BACKUP_COPIES ?eb"
    by (simp_all add: ex_env_def)
  have fs: "files ?w = ex_tree" "files ?wf = ex_tree" "trace ?w = []" "out ?w = []"
    by (simp_all add: ex_world_def ex_fault_def)
  have d: "is_dir_at (files ?w) (name ex_app)" "is_dir_at (files ?wf) (name ex_app)"
    by (simp_all add: n is_dir_at_def ex_world_def ex_fault_def ex_tree_def ex_node_def)
  have c: "nonempty_dir (files ?w) (name ex_app)" "nonempty_dir (files ?wf) (name ex_app)"
    by (simp_all add: n nonempty_dir_def ex_world_def ex_fault_def ex_tree_def under_def)
  have r: "outcome ?w (OsRename ''/etc/app'' ''/etc/app.saved'') = None"
    "outcome ?wf (OsRename ''/etc/app'' ''/etc/app.saved'') = Some EACCES"
    by (simp_all add: outcome_def ex_world_def ex_fault_def ex_tree_def under_def)
  have m: "map_of ex_tree ''/etc/app'' = Some (ex_node Dir 493 0 [])"
    by (simp add: ex_tree_def)
  show ?thesis
    using dir_harddelete_nonempty [OF k d(1) c(1), of ex_env]
      dir_harddelete_nonempty [OF k d(2) c(2), of ex_env]
      dir_harddelete_nonempty [OF k d(1) c(1), of ?eb]
      k e d c r m
    by (simp add: n fs)
qed

section \<open>Calls that only read\<close>

lemma quiet_iff:
  "quiet w w' \<longleftrightarrow>
     files w' = files w \<and> faults w' = faults w \<and>
     (\<exists>cs. trace w' = trace w @ cs \<and> list_all (\<lambda>c. \<not> mutating (fst c)) cs)"
proof
  assume q: "quiet w w'"
  then have "trace w' = trace w @ drop (length (trace w)) (trace w')"
    by (metis append_take_drop_id quiet_def)
  moreover have "list_all (\<lambda>c. \<not> mutating (fst c)) (drop (length (trace w)) (trace w'))"
    using q by (simp add: quiet_def new_calls_def list_all_iff)
  ultimately show "files w' = files w \<and> faults w' = faults w \<and>
     (\<exists>cs. trace w' = trace w @ cs \<and> list_all (\<lambda>c. \<not> mutating (fst c)) cs)"
    using q by (auto simp: quiet_def)
next
  assume "files w' = files w \<and> faults w' = faults w \<and>
     (\<exists>cs. trace w' = trace w @ cs \<and> list_all (\<lambda>c. \<not> mutating (fst c)) cs)"
  then show "quiet w w'"
    by (auto simp: quiet_def new_calls_def list_all_iff)
qed

lemma quiet_refl [simp]: "quiet w w"
  by (simp add: quiet_iff)

lemma quiet_trans: "quiet w w1 \<Longrightarrow> quiet w1 w2 \<Longrightarrow> quiet w w2"
  by (auto simp: quiet_iff)

lemma quiet_report [simp]:
  "quiet w (stdout s w)" "quiet w (stderr s w)" "quiet w (verbose s w)"
  "quiet w (unix_out s w)" "quiet w (terse t s w)" "quiet w (log s w)"
  by (simp_all add: quiet_iff)

lemma quiet_perform: "\<not> mutating c \<Longrightarrow> quiet w (perform e c w)"
  by (simp add: quiet_iff)

lemma quiet_after_report [simp]:
  "quiet w (stdout s w') = quiet w w'" "quiet w (stderr s w') = quiet w w'"
  "quiet w (verbose s w') = quiet w w'" "quiet w (unix_out s w') = quiet w w'"
  "quiet w (terse t s w') = quiet w w'" "quiet w (log s w') = quiet w w'"
  by (simp_all add: quiet_def new_calls_def)

lemma quiet_after_read [simp]:
  "\<not> mutating c \<Longrightarrow> quiet w w' \<Longrightarrow> quiet w (perform e c w')"
  using quiet_perform quiet_trans by blast

lemma outcome_read: "outcome w (FileRead p k) = faults w (FileRead p k)"
  by (simp add: outcome_def split: option.splits)

lemma checksum_loop_pure:
  "loop_verdict (checksum_loop e f1 f2 sum1 sum2 ended w)
     = digest_loop (md5 e) (faults w) f1 f2 sum1 sum2 ended \<and>
   quiet w (loop_world (checksum_loop e f1 f2 sum1 sum2 ended w))"
proof (induction "md5 e" "faults w" f1 f2 sum1 sum2 ended arbitrary: w rule: digest_loop.induct)
  case (1 f1 f2 sum1 sum2 ended)
  let ?c1 = "FileRead (fo_path f1) (fo_reads f1)"
  let ?c2 = "FileRead (fo_path f2) (fo_reads f2)"
  show ?case
  proof (cases "\<not> ended \<and> md5 e sum1 = md5 e sum2")
    case False
    then show ?thesis
      by (subst checksum_loop.simps, subst digest_loop.simps, subst checksum_loop.simps)
        (auto simp: loop_verdict_def loop_world_def)
  next
    case go: True
    show ?thesis
    proof (cases "faults w ?c1 \<noteq> None \<or> faults w ?c2 \<noteq> None")
      case True
      then show ?thesis
        using go
        by (subst checksum_loop.simps, subst digest_loop.simps, subst checksum_loop.simps)
          (auto simp: loop_verdict_def loop_world_def file_read_def sys_def outcome_read
            split: option.splits)
    next
      case False
      let ?w2 = "perform e ?c2 (perform e ?c1 w)"
      let ?f1 = "f1\<lparr>fo_rest := drop IO_SIZE (fo_rest f1), fo_reads := Suc (fo_reads f1)\<rparr>"
      let ?f2 = "f2\<lparr>fo_rest := drop IO_SIZE (fo_rest f2), fo_reads := Suc (fo_reads f2)\<rparr>"
      let ?s1 = "sum1 @ take IO_SIZE (fo_rest f1)"
      let ?s2 = "sum2 @ take IO_SIZE (fo_rest f2)"
      let ?en = "fo_rest f1 = [] \<or> fo_rest f2 = []"
      have ih: "loop_verdict (checksum_loop e ?f1 ?f2 ?s1 ?s2 ?en ?w2)
                  = digest_loop (md5 e) (faults ?w2) ?f1 ?f2 ?s1 ?s2 ?en \<and>
                quiet ?w2 (loop_world (checksum_loop e ?f1 ?f2 ?s1 ?s2 ?en ?w2))"
        using go False by (intro "1.hyps") simp_all
      have step: "checksum_loop e f1 f2 sum1 sum2 ended w
                    = checksum_loop e ?f1 ?f2 ?s1 ?s2 ?en ?w2"
        using go False
        by (subst checksum_loop.simps)
          (auto simp: file_read_def sys_def outcome_read IO_SIZE_def)
      have q: "quiet w ?w2"
        by simp
      have d: "digest_loop (md5 e) (faults w) f1 f2 sum1 sum2 ended
                 = digest_loop (md5 e) (faults w) ?f1 ?f2 ?s1 ?s2 ?en"
        using go False by (subst digest_loop.simps) simp
      show ?thesis
        unfolding step d using ih quiet_trans [OF q] by simp
    qed
  qed
qed

lemma quiet_files: "quiet w w' \<Longrightarrow> files w' = files w"
  and quiet_faults: "quiet w w' \<Longrightarrow> faults w' = faults w"
  by (simp_all add: quiet_def)

lemma quiet_outcome: "quiet w w' \<Longrightarrow> outcome w' c = outcome w c"
  by (rule outcome_eqI) (simp_all add: quiet_def)

subsection \<open>Building the handler\<close>

lemma os_readlink_quiet: "quiet w (snd (os_readlink e p w))"
  by (simp add: os_readlink_def sys_def split: option.splits)

lemma os_stat_quiet: "quiet w (snd (os_stat e p w))"
  by (simp add: os_stat_def sys_def split: option.splits)

lemma os_lstat_quiet: "quiet w (snd (os_lstat e p w))"
  by (simp add: os_lstat_def sys_def split: option.splits)

lemma os_readlink_cong:
  "files w' = files w \<Longrightarrow> faults w' = faults w \<Longrightarrow>
     fst (os_readlink e' p w') = fst (os_readlink e p w)"
  using outcome_eqI [of w' w "OsReadlink p"]
  by (simp add: os_readlink_def sys_def split: option.splits)

lemma os_stat_cong:
  "files w' = files w \<Longrightarrow> faults w' = faults w \<Longrightarrow>
     fst (os_stat e' p w') = fst (os_stat e p w)"
  using outcome_eqI [of w' w "OsStat p"]
  by (simp add: os_stat_def sys_def split: option.splits)

lemma os_lstat_cong:
  "files w' = files w \<Longrightarrow> faults w' = faults w \<Longrightarrow>
     fst (os_lstat e' p w') = fst (os_lstat e p w)"
  using outcome_eqI [of w' w "OsLstat p"]
  by (simp add: os_lstat_def sys_def split: option.splits)

lemma case_prod_fst_snd: "(case p of (a, b) \<Rightarrow> f a b) = f (fst p) (snd p)"
  by (cases p) simp

lemma vnode_obj_quiet: "quiet w (snd (vnode_obj e so w))"
  using os_readlink_quiet [of w e "src_path so"] os_stat_quiet [of w e "src_path so"]
  by (simp add: vnode_obj_def Let_def case_prod_fst_snd split: sum.splits)

lemma vnode_obj_cong:
  assumes "files w' = files w" and "faults w' = faults w"
  shows "fst (vnode_obj e' so w') = fst (vnode_obj e so w)"
  using os_readlink_cong [OF assms, of e' "src_path so" e]
    os_stat_cong [OF assms, of e' "src_path so" e]
  by (simp add: vnode_obj_def Let_def case_prod_fst_snd split: sum.splits)

subsection \<open>Comparing\<close>

lemma file_open_quiet: "quiet w (snd (file_open e p w))"
  by (simp add: file_open_def sys_def split: option.splits)

lemma file_open_cong:
  "files w' = files w \<Longrightarrow> faults w' = faults w \<Longrightarrow>
     fst (file_open e' p w') = fst (file_open e p w)"
  using outcome_eqI [of w' w "FileOpen p"]
  by (simp add: file_open_def sys_def split: option.splits)

lemma compare_checksums_verdict:
  "fst (compare_checksums e v sp w)
     = checksum_verdict (md5 e) (faults w) (fst (file_open e sp w)) (fst (file_open e (name v) w))"
proof (cases "file_open e sp w")
  case o1: (Pair r1 w1)
  have q1: "quiet w w1"
    using file_open_quiet [of w e sp] o1 by simp
  show ?thesis
  proof (cases r1)
    case (Inl err)
    then show ?thesis
      using o1 by (simp add: compare_checksums_def checksum_verdict_def)
  next
    case f1: (Inr f1)
    show ?thesis
    proof (cases "file_open e (name v) w1")
      case o2: (Pair r2 w2)
      have r2: "r2 = fst (file_open e (name v) w)"
        using file_open_cong [of w1 w e "name v" e] q1 o2 by (simp add: quiet_def)
      have q2: "quiet w1 w2"
        using file_open_quiet [of w1 e "name v"] o2 by simp
      show ?thesis
      proof (cases r2)
        case (Inl err)
        then show ?thesis
          using o1 f1 o2 r2 by (simp add: compare_checksums_def checksum_verdict_def)
      next
        case f2: (Inr f2)
        have fl: "faults w2 = faults w"
          using q1 q2 by (simp add: quiet_def)
        have lv: "loop_verdict (checksum_loop e f1 f2 [] [] False w2)
                    = digest_loop (md5 e) (faults w) f1 f2 [] [] False"
          using checksum_loop_pure [of e f1 f2 "[]" "[]" False w2] by (simp add: fl)
        show ?thesis
        proof (cases "checksum_loop e f1 f2 [] [] False w2")
          case (Inl w3)
          then show ?thesis
            using o1 f1 o2 f2 r2 lv
            by (simp add: compare_checksums_def checksum_verdict_def loop_verdict_def)
        next
          case (Inr t)
          then show ?thesis
            using o1 f1 o2 f2 r2
            by (cases t)
              (auto simp: compare_checksums_def checksum_verdict_def loop_verdict_def Let_def
                lv [symmetric])
        qed
      qed
    qed
  qed
qed

lemma compare_checksums_quiet: "quiet w (snd (compare_checksums e v sp w))"
proof (cases "file_open e sp w")
  case o1: (Pair r1 w1)
  have q1: "quiet w w1"
    using file_open_quiet [of w e sp] o1 by simp
  show ?thesis
  proof (cases r1)
    case (Inl err)
    then show ?thesis
      using o1 q1 by (simp add: compare_checksums_def)
  next
    case f1: (Inr f1)
    show ?thesis
    proof (cases "file_open e (name v) w1")
      case o2: (Pair r2 w2)
      have q2: "quiet w w2"
        using file_open_quiet [of w1 e "name v"] o2 q1 quiet_trans by fastforce
      show ?thesis
      proof (cases r2)
        case (Inl err)
        then show ?thesis
          using o1 f1 o2 q2 by (simp add: compare_checksums_def)
      next
        case f2: (Inr f2)
        have q3: "quiet w (loop_world (checksum_loop e f1 f2 [] [] False w2))"
          using checksum_loop_pure [of e f1 f2 "[]" "[]" False w2] q2 quiet_trans by blast
        show ?thesis
        proof (cases "checksum_loop e f1 f2 [] [] False w2")
          case (Inl w3)
          then show ?thesis
            using o1 f1 o2 f2 q3 by (simp add: compare_checksums_def loop_world_def)
        next
          case (Inr t)
          then show ?thesis
            using o1 f1 o2 f2 q3
            by (cases t) (auto simp: compare_checksums_def loop_world_def Let_def)
        qed
      qed
    qed
  qed
qed

lemma compare_quiet: "quiet w (snd (compare e v sp ds w))"
  using compare_checksums_quiet [of w e v sp] os_readlink_quiet [of w e "name v"]
    os_lstat_quiet [of w e "name v"]
  by (cases "kind v")
    (simp_all add: compare_def VNodeFile_compare_def VNodeLink_compare_def VNodeDev_compare_def
      Let_def case_prod_fst_snd split: sum.splits)

lemma compare_cong:
  assumes "files w' = files w" and "faults w' = faults w" and "md5 e' = md5 e"
  shows "fst (compare e' v sp ds w') = fst (compare e v sp ds w)"
  using assms file_open_cong [OF assms(1,2), of e' sp e]
    file_open_cong [OF assms(1,2), of e' "name v" e]
    os_readlink_cong [OF assms(1,2), of e' "name v" e]
    os_lstat_cong [OF assms(1,2), of e' "name v" e]
  by (cases "kind v")
    (simp_all add: compare_def VNodeFile_compare_def VNodeLink_compare_def VNodeDev_compare_def
      compare_checksums_verdict Let_def case_prod_fst_snd split: sum.splits)

section \<open>What \<^verbatim>\<open>check\<close> returns\<close>

lemma check_metadata_flag:
  "fst (check_metadata e so v w) = (owner_differs so \<or> mode_differs so)"
  by (simp add: check_metadata_def owner_differs_def mode_differs_def Let_def)

lemma check_decision: "fst (check e so w) = check_flags e so w"
proof -
  let ?w1 = "log (''creating '' @ dest_path so) (stdout (dest_path so @ '' does not exist'') w)"
  have v1: "fst (vnode_obj e so ?w1) = fst (vnode_obj e so w)"
    by (rule vnode_obj_cong) simp_all
  obtain r w2 where vo: "vnode_obj e so w = (r, w2)"
    by (cases "vnode_obj e so w")
  have q: "quiet w w2"
    using vnode_obj_quiet [of w e so] vo by simp
  have c: "fst (compare e v (src_path so) (dest_stat so) w2)
             = fst (compare e v (src_path so) (dest_stat so) w)" for v
    using q by (intro compare_cong) (simp_all add: quiet_def)
  show ?thesis
  proof (cases "entry_exists (dest_stat so)")
    case False
    then show ?thesis
      using v1
      by (cases "vnode_obj e so ?w1")
        (auto simp: check_def check_flags_def Let_def split: sum.splits option.splits)
  next
    case ex: True
    show ?thesis
    proof (cases "filetype (src_stat so) = filetype (dest_stat so)")
      case False
      then show ?thesis
        using ex vo
        by (auto simp: check_def check_flags_def Let_def split: sum.splits option.splits)
    next
      case True
      then show ?thesis
        using ex vo c check_metadata_flag
        by (auto simp: check_def check_flags_def Let_def case_prod_fst_snd
            split: sum.splits option.splits)
    qed
  qed
qed

lemma check_flags_cong:
  assumes "md5 e' = md5 e"
  shows "fst (check e' so w) = fst (check e so w)"
proof -
  have "fst (vnode_obj e' so w) = fst (vnode_obj e so w)"
    by (rule vnode_obj_cong) simp_all
  moreover have "fst (compare e' v (src_path so) (dest_stat so) w)
                   = fst (compare e v (src_path so) (dest_stat so) w)" for v
    using assms by (intro compare_cong) simp_all
  ultimately show ?thesis
    by (simp add: check_decision check_flags_def split: sum.splits option.splits)
qed

section \<open>Dry run (C1)\<close>

lemma os_path_exists_quiet: "quiet w (snd (os_path_exists e p w))"
  by (simp add: os_path_exists_def sys_def)

lemma dry_move_saved: "DRY_RUN e \<Longrightarrow> quiet w (move_saved e v w)"
  by (simp add: move_saved_def Let_def)

lemma dry_harddelete: "DRY_RUN e \<Longrightarrow> quiet w (harddelete e v w)"
  by (cases "kind v")
    (simp_all add: harddelete_def VNode_harddelete_def VNodeDir_harddelete_def Let_def)

lemma dry_quiet_delete: "DRY_RUN e \<Longrightarrow> quiet w (quiet_delete e v w)"
  by (cases "kind v")
    (simp_all add: quiet_delete_def VNode_quiet_delete_def VNodeDir_quiet_delete_def)

lemma dry_mkdir_basepath: "DRY_RUN e \<Longrightarrow> quiet w (mkdir_basepath e v w)"
  by (simp add: mkdir_basepath_def)

lemma dry_create: "DRY_RUN e \<Longrightarrow> quiet w (create e v w)"
  using os_path_exists_quiet [of w e "name v"]
  by (cases "kind v")
    (simp_all add: create_def VNodeFile_create_def VNodeDir_create_def VNodeLink_create_def
      VNodeFifo_create_def VNodeDev_create_def Let_def case_prod_fst_snd split: bool.splits)

lemma dry_set_owner: "DRY_RUN e \<Longrightarrow> quiet w (set_owner e v w)"
  by (cases "kind v")
    (simp_all add: set_owner_def VNode_set_owner_def VNodeLink_set_owner_def Let_def)

lemma dry_set_permissions: "DRY_RUN e \<Longrightarrow> quiet w (set_permissions e v w)"
  by (cases "kind v")
    (simp_all add: set_permissions_def VNode_set_permissions_def VNodeLink_set_permissions_def
      Let_def)

lemma dry_set_times: "DRY_RUN e \<Longrightarrow> quiet w (set_times e v atime mtime w)"
  by (simp add: set_times_def)

lemma dry_fix: "DRY_RUN e \<Longrightarrow> quiet w (VNode_fix e v w)"
  unfolding VNode_fix_def Let_def
  by (intro quiet_trans [OF _ dry_set_permissions] quiet_trans [OF _ dry_set_owner]
      quiet_trans [OF _ dry_create] quiet_trans [OF _ dry_mkdir_basepath])
    (simp_all add: dry_move_saved dry_quiet_delete)

lemma dry_check_metadata: "DRY_RUN e \<Longrightarrow> quiet w (snd (check_metadata e so v w))"
  unfolding check_metadata_def Let_def
  by (auto intro!: quiet_trans [OF _ dry_set_permissions] quiet_trans [OF _ dry_set_owner])

lemma dry_check:
  assumes "DRY_RUN e"
  shows "quiet w (snd (check e so w))"
proof -
  have f: "quiet w w' \<Longrightarrow> quiet w (VNode_fix e v w')" for w' v
    using dry_fix [OF assms] quiet_trans by blast
  have m: "quiet w w' \<Longrightarrow> quiet w (snd (check_metadata e so v w'))" for w' v
    using dry_check_metadata [OF assms] quiet_trans by blast
  have c: "quiet w w' \<Longrightarrow> quiet w (snd (compare e v sp ds w'))" for w' v sp ds
    using compare_quiet quiet_trans by blast
  have o: "quiet w w' \<Longrightarrow> quiet w (snd (vnode_obj e so w'))" for w'
    using vnode_obj_quiet quiet_trans by blast
  let ?w1 = "log (''creating '' @ dest_path so) (stdout (dest_path so @ '' does not exist'') w)"
  have o1: "quiet w (snd (vnode_obj e so ?w1))"
    by (rule o) simp
  have o2: "quiet w (snd (vnode_obj e so w))"
    by (rule o) simp
  show ?thesis
    unfolding check_def Let_def case_prod_fst_snd
    using o1 o2 by (auto intro!: f m c split: sum.splits option.splits bool.splits)
qed

text \<open>
  C1.  With the dry-run flag set, each of \<^verbatim>\<open>move_saved\<close>, \<^verbatim>\<open>harddelete\<close>,
  \<^verbatim>\<open>quiet_delete\<close>, \<^verbatim>\<open>mkdir_basepath\<close>, \<^verbatim>\<open>create\<close>, \<^verbatim>\<open>set_owner\<close>,
  \<^verbatim>\<open>set_permissions\<close>, \<^verbatim>\<open>set_times\<close>, \<^verbatim>\<open>fix\<close> and \<^verbatim>\<open>check\<close> issues no
  mutating system call and leaves the file system as it was; and \<^verbatim>\<open>check\<close> returns
  what it returns from the same world with the flag cleared: the same pair, or the same
  exception.
\<close>

theorem dry_run_mutates_nothing:
  assumes "DRY_RUN e"
  shows "quiet w (move_saved e v w) \<and> quiet w (harddelete e v w) \<and>
         quiet w (quiet_delete e v w) \<and> quiet w (mkdir_basepath e v w) \<and>
         quiet w (create e v w) \<and> quiet w (set_owner e v w) \<and>
         quiet w (set_permissions e v w) \<and> quiet w (set_times e v atime mtime w) \<and>
         quiet w (VNode_fix e v w) \<and> quiet w (snd (check e so w)) \<and>
         fst (check e so w) = fst (check (e\<lparr>DRY_RUN := False\<rparr>) so w)"
proof -
  have "fst (check e so w) = fst (check (e\<lparr>DRY_RUN := False\<rparr>) so w)"
    by (rule check_flags_cong [symmetric]) simp
  then show ?thesis
    using assms
    by (simp add: dry_move_saved dry_harddelete dry_quiet_delete dry_mkdir_basepath dry_create
        dry_set_owner dry_set_permissions dry_set_times dry_fix dry_check)
qed

lemma ex_motd_flags: "fst (check ex_env ex_motd_so (ex_world ex_pair)) = Inr (True, False)"
  by (simp add: check_decision check_flags_def ex_motd_so_def ex_so_def vnode_obj_def
      is_file_def snapshot_def ex_node_def compare_def VNodeFile_compare_def
      compare_checksums_verdict checksum_verdict_def file_open_def sys_def outcome_def
      ex_world_def ex_pair_def perform_def digest_loop.simps IO_SIZE_def ex_env_def)

theorem dry_run_mutates_nothing_witness:
  "DRY_RUN (ex_env\<lparr>DRY_RUN := True\<rparr>) \<and>
   files (VNode_fix (ex_env\<lparr>DRY_RUN := True\<rparr>) ex_motd (ex_world ex_pair)) = ex_pair \<and>
   files (snd (check (ex_env\<lparr>DRY_RUN := True\<rparr>) ex_motd_so (ex_world ex_pair))) = ex_pair \<and>
   fst (check (ex_env\<lparr>DRY_RUN := True\<rparr>) ex_motd_so (ex_world ex_pair)) = Inr (True, False) \<and>
   fst (check ex_env ex_motd_so (ex_world ex_pair)) = Inr (True, False)"
proof -
  have d: "DRY_RUN (ex_env\<lparr>DRY_RUN := True\<rparr>)"
    by simp
  have e: "ex_env\<lparr>DRY_RUN := True, DRY_RUN := False\<rparr> = ex_env"
    by (simp add: ex_env_def)
  show ?thesis
    using dry_run_mutates_nothing [OF d, of "ex_world ex_pair" ex_motd _ _ ex_motd_so]
      ex_motd_flags
    by (simp add: e quiet_def ex_world_def)
qed

section \<open>When \<^verbatim>\<open>check\<close> replaces the destination (C3)\<close>

lemma vnode_obj_handler:
  assumes "fst (vnode_obj e so w) = Inr (Some v)"
  shows "handler_for so v"
  using assms
  by (auto simp: vnode_obj_def handler_for_def Let_def case_prod_fst_snd is_file_def is_dir_def
      is_link_def is_fifo_def is_chardev_def is_blockdev_def split: if_splits sum.splits)

lemma check_fixes:
  assumes "check e so w = (Inr (True, False), w')"
  shows "\<exists>v w1. fst (vnode_obj e so w) = Inr (Some v) \<and> quiet w w1 \<and> w' = VNode_fix e v w1"
proof -
  let ?w1 = "log (''creating '' @ dest_path so) (stdout (dest_path so @ '' does not exist'') w)"
  have v1: "fst (vnode_obj e so ?w1) = fst (vnode_obj e so w)"
    by (rule vnode_obj_cong) simp_all
  have q1: "quiet w (snd (vnode_obj e so ?w1))"
    using vnode_obj_quiet [of ?w1 e so] quiet_trans [of w ?w1] by simp
  have q2: "quiet w (snd (vnode_obj e so w))"
    by (rule vnode_obj_quiet)
  have q3: "quiet w (snd (compare e v sp ds (snd (vnode_obj e so w))))" for v sp ds
    using compare_quiet quiet_trans [OF q2] by blast
  have I: "quiet w w1 \<Longrightarrow> \<exists>w1'. quiet w w1' \<and> VNode_fix e v w1 = VNode_fix e v w1'"
    for v w1
    by blast
  show ?thesis
  proof (cases "entry_exists (dest_stat so)")
    case False
    then show ?thesis
      using assms v1 q1
      by (cases "vnode_obj e so ?w1")
        (auto simp: check_def Let_def split: sum.splits option.splits)
  next
    case ex: True
    show ?thesis
    proof (cases "filetype (src_stat so) = filetype (dest_stat so)")
      case False
      then show ?thesis
        using assms ex q2
        by (cases "vnode_obj e so w")
          (auto simp: check_def Let_def simp del: typename.simps intro!: I
            split: sum.splits option.splits)
    next
      case True
      then show ?thesis
        using assms ex q2 q3
        by (cases "vnode_obj e so w")
          (auto simp: check_def Let_def case_prod_fst_snd intro!: I
            split: sum.splits option.splits bool.splits if_splits)
    qed
  qed
qed

lemma check_raises_quiet:
  assumes "\<not> entry_exists (dest_stat so) \<or> filetype (src_stat so) \<noteq> filetype (dest_stat so)"
    and "\<forall>v. fst (vnode_obj e so w) \<noteq> Inr (Some v)"
  shows "(\<exists>x. fst (check e so w) = Inl x) \<and> quiet w (snd (check e so w))"
proof -
  let ?w1 = "log (''creating '' @ dest_path so) (stdout (dest_path so @ '' does not exist'') w)"
  have v1: "fst (vnode_obj e so ?w1) = fst (vnode_obj e so w)"
    by (rule vnode_obj_cong) simp_all
  have q1: "quiet w (snd (vnode_obj e so ?w1))"
    using vnode_obj_quiet [of ?w1 e so] quiet_trans [of w ?w1] by simp
  have q2: "quiet w (snd (vnode_obj e so w))"
    by (rule vnode_obj_quiet)
  show ?thesis
  proof (cases "entry_exists (dest_stat so)")
    case False
    then show ?thesis
      using assms(2) v1 q1
      by (cases "vnode_obj e so ?w1")
        (auto simp: check_def Let_def split: sum.splits option.splits)
  next
    case True
    then show ?thesis
      using assms q2
      by (cases "vnode_obj e so w")
        (auto simp: check_def Let_def split: sum.splits option.splits)
  qed
qed

text \<open>
  C3.  \<^verbatim>\<open>check\<close> returns (true, false) exactly when \<^verbatim>\<open>vnode_obj\<close> builds a handler
  and one of three cases holds: the destination does not exist, it exists with another
  type than the source, or the handler's \<^verbatim>\<open>compare\<close> answers false.  Then the world it
  leaves is the one of \<^verbatim>\<open>fix\<close>, called on the handler built for the type of the
  source, after calls that only read and report.  When \<^verbatim>\<open>vnode_obj\<close> builds no handler
  (the link target of the source cannot be read, the source has none of the six types,
  \<^verbatim>\<open>os.stat\<close> of a device source fails), the first two cases do not end in
  (true, false): \<^verbatim>\<open>check\<close> raises, and it has made no call that mutates, so
  \<^verbatim>\<open>fix\<close> has not run.
\<close>

theorem check_content_changed:
  "((fst (check e so w) = Inr (True, False)) =
      ((\<exists>v. fst (vnode_obj e so w) = Inr (Some v)) \<and>
       (\<not> entry_exists (dest_stat so) \<or>
        filetype (src_stat so) \<noteq> filetype (dest_stat so) \<or> content_differs e so w))) \<and>
   (fst (check e so w) = Inr (True, False) \<longrightarrow>
      (\<exists>v w1. fst (vnode_obj e so w) = Inr (Some v) \<and> handler_for so v \<and>
               quiet w w1 \<and> snd (check e so w) = VNode_fix e v w1)) \<and>
   ((\<not> entry_exists (dest_stat so) \<or> filetype (src_stat so) \<noteq> filetype (dest_stat so)) \<and>
    (\<forall>v. fst (vnode_obj e so w) \<noteq> Inr (Some v)) \<longrightarrow>
      (\<exists>x. fst (check e so w) = Inl x) \<and> quiet w (snd (check e so w)))"
proof (intro conjI impI)
  show "(fst (check e so w) = Inr (True, False)) =
      ((\<exists>v. fst (vnode_obj e so w) = Inr (Some v)) \<and>
       (\<not> entry_exists (dest_stat so) \<or>
        filetype (src_stat so) \<noteq> filetype (dest_stat so) \<or> content_differs e so w))"
    by (auto simp: check_decision check_flags_def content_differs_def
        split: sum.splits option.splits if_splits)
next
  assume "fst (check e so w) = Inr (True, False)"
  then have "check e so w = (Inr (True, False), snd (check e so w))"
    by (rule fst_eqD)
  then show "\<exists>v w1. fst (vnode_obj e so w) = Inr (Some v) \<and> handler_for so v \<and>
                   quiet w w1 \<and> snd (check e so w) = VNode_fix e v w1"
    using check_fixes [of e so w "snd (check e so w)"] vnode_obj_handler by blast
next
  assume a: "(\<not> entry_exists (dest_stat so) \<or> filetype (src_stat so) \<noteq> filetype (dest_stat so)) \<and>
    (\<forall>v. fst (vnode_obj e so w) \<noteq> Inr (Some v))"
  then show "\<exists>x. fst (check e so w) = Inl x" "quiet w (snd (check e so w))"
    using check_raises_quiet [of so e w] by blast+
qed

theorem check_content_changed_witness:
  "fst (vnode_obj ex_env ex_motd_so (ex_world ex_pair)) = Inr (Some ex_motd) \<and>
   entry_exists (dest_stat ex_motd_so) \<and>
   filetype (src_stat ex_motd_so) = filetype (dest_stat ex_motd_so) \<and>
   content_differs ex_env ex_motd_so (ex_world ex_pair) \<and>
   fst (check ex_env ex_motd_so (ex_world ex_pair)) = Inr (True, False) \<and>
   (\<exists>v w1. handler_for ex_motd_so v \<and> quiet (ex_world ex_pair) w1 \<and>
            snd (check ex_env ex_motd_so (ex_world ex_pair)) = VNode_fix ex_env v w1) \<and>
   \<not> entry_exists (dest_stat ex_sock_so) \<and>
   fst (vnode_obj ex_env ex_sock_so (ex_world ex_tree)) = Inr None \<and>
   fst (check ex_env ex_sock_so (ex_world ex_tree)) \<noteq> Inr (True, False) \<and>
   (\<exists>x. fst (check ex_env ex_sock_so (ex_world ex_tree)) = Inl x) \<and>
   quiet (ex_world ex_tree) (snd (check ex_env ex_sock_so (ex_world ex_tree)))"
proof -
  let ?w = "ex_world ex_pair"
  have v: "fst (vnode_obj ex_env ex_motd_so ?w) = Inr (Some ex_motd)"
    by (simp add: vnode_obj_def ex_motd_so_def ex_so_def is_file_def snapshot_def ex_motd_def
        ex_vnode_def ex_node_def)
  have s: "entry_exists (dest_stat ex_motd_so)"
    "filetype (src_stat ex_motd_so) = filetype (dest_stat ex_motd_so)"
    by (simp_all add: ex_motd_so_def ex_so_def snapshot_def ex_node_def)
  have "\<not> fst (compare ex_env ex_motd (src_path ex_motd_so) (dest_stat ex_motd_so) ?w)"
    by (simp add: ex_motd_so_def ex_so_def ex_motd_def ex_vnode_def
        snapshot_def ex_node_def compare_def VNodeFile_compare_def
        compare_checksums_verdict checksum_verdict_def file_open_def sys_def outcome_def
        ex_world_def ex_pair_def perform_def digest_loop.simps IO_SIZE_def ex_env_def)
  then have c: "content_differs ex_env ex_motd_so ?w"
    unfolding content_differs_def v by simp
  have n: "\<not> entry_exists (dest_stat ex_sock_so)"
    by (simp add: ex_sock_so_def ex_so_def no_entry_def)
  have u: "fst (vnode_obj ex_env ex_sock_so (ex_world ex_tree)) = Inr None"
    by (simp add: vnode_obj_unknown ex_sock_so_def ex_so_def snapshot_def ex_node_def)
  show ?thesis
    using check_content_changed [of ex_env ex_motd_so ?w]
      check_content_changed [of ex_env ex_sock_so "ex_world ex_tree"] v s c n u
    by auto
qed

section \<open>Owner and mode of an entry whose content is right (C4)\<close>

lemma set_owner_calls:
  "map fst (trace (set_owner e v w)) = map fst (trace w) @ owner_calls e v"
  by (cases "kind v")
    (simp_all add: set_owner_def owner_calls_def VNode_set_owner_def VNodeLink_set_owner_def
      sys_def Let_def split: option.splits)

lemma set_permissions_calls:
  "map fst (trace (set_permissions e v w)) = map fst (trace w) @ mode_calls e v"
  by (cases "kind v")
    (simp_all add: set_permissions_def mode_calls_def VNode_set_permissions_def
      VNodeLink_set_permissions_def sys_def Let_def split: option.splits)

lemma check_metadata_calls:
  "map fst (trace (snd (check_metadata e so v w))) =
     map fst (trace w) @ (if owner_differs so then owner_calls e v else [])
       @ (if mode_differs so then mode_calls e v else [])"
  by (simp add: check_metadata_def owner_differs_def mode_differs_def Let_def set_owner_calls
      set_permissions_calls)

text \<open>
  C4.  When the destination exists with the type of the source and \<^verbatim>\<open>compare\<close> answers
  true, \<^verbatim>\<open>check\<close> returns (false, m), where m says that the owner (uid or gid) or the
  mode differs from the snapshot of the source.  Both facets are tested: after the calls
  of \<^verbatim>\<open>compare\<close> come the calls of \<^verbatim>\<open>set_owner\<close> exactly when the owner differs,
  then the calls of \<^verbatim>\<open>set_permissions\<close> exactly when the mode differs, and no other.
\<close>

theorem check_metadata_facets:
  assumes "entry_exists (dest_stat so)"
    and "filetype (src_stat so) = filetype (dest_stat so)"
    and "vnode_obj e so w = (Inr (Some v), w1)"
    and "compare e v (src_path so) (dest_stat so) w1 = (True, w2)"
  shows "fst (check e so w) = Inr (False, owner_differs so \<or> mode_differs so) \<and>
         map fst (trace (snd (check e so w))) =
           map fst (trace w2) @ (if owner_differs so then owner_calls e v else [])
             @ (if mode_differs so then mode_calls e v else [])"
  using assms
  by (simp add: check_def check_metadata_flag check_metadata_calls case_prod_fst_snd)

theorem check_metadata_facets_witness:
  "entry_exists (dest_stat ex_owned_so) \<and>
   filetype (src_stat ex_owned_so) = filetype (dest_stat ex_owned_so) \<and>
   vnode_obj ex_env ex_owned_so (ex_world ex_owned) = (Inr (Some ex_motd), ex_world ex_owned) \<and>
   fst (compare ex_env ex_motd (src_path ex_owned_so) (dest_stat ex_owned_so)
          (ex_world ex_owned)) = True \<and>
   owner_differs ex_owned_so \<and> \<not> mode_differs ex_owned_so \<and>
   fst (check ex_env ex_owned_so (ex_world ex_owned)) = Inr (False, True) \<and>
   map fst (trace (snd (check ex_env ex_owned_so (ex_world ex_owned)))) =
     map fst (trace (snd (compare ex_env ex_motd (src_path ex_owned_so) (dest_stat ex_owned_so)
                            (ex_world ex_owned))))
       @ [OsChown ''/etc/motd'' 0 0]"
proof -
  let ?w = "ex_world ex_owned"
  have s: "entry_exists (dest_stat ex_owned_so)"
    "filetype (src_stat ex_owned_so) = filetype (dest_stat ex_owned_so)"
    "owner_differs ex_owned_so" "\<not> mode_differs ex_owned_so"
    by (simp_all add: ex_owned_so_def ex_so_def snapshot_def ex_node_def owner_differs_def
        mode_differs_def)
  have v: "vnode_obj ex_env ex_owned_so ?w = (Inr (Some ex_motd), ?w)"
    by (simp add: vnode_obj_def ex_owned_so_def ex_so_def is_file_def snapshot_def ex_motd_def
        ex_vnode_def ex_node_def)
  have c: "fst (compare ex_env ex_motd (src_path ex_owned_so) (dest_stat ex_owned_so) ?w) = True"
    by (simp add: ex_owned_so_def ex_so_def ex_motd_def ex_vnode_def
        snapshot_def ex_node_def compare_def VNodeFile_compare_def
        compare_checksums_verdict checksum_verdict_def file_open_def sys_def outcome_def
        ex_world_def ex_owned_def perform_def digest_loop.simps IO_SIZE_def ex_env_def)
  have o: "owner_calls ex_env ex_motd = [OsChown ''/etc/motd'' 0 0]"
    by (simp add: owner_calls_def ex_env_def ex_motd_def ex_vnode_def snapshot_def ex_node_def)
  show ?thesis
    using check_metadata_facets [OF s(1,2) v fst_eqD [OF c]] s v c o by simp
qed

subsection \<open>Sizes and digests (C5)\<close>













section \<open>The steps of \<^verbatim>\<open>fix\<close> (C6)\<close>












subsection \<open>The entry at \<^verbatim>\<open><name>.saved\<close>\<close>





lemma report_files_of [simp]:
  "map_of (files (stdout s w)) = map_of (files w)"
  by simp














section \<open>Running \<^verbatim>\<open>check\<close> twice (C9)\<close>



lemma SyncStat_cong:
  "files w' = files w \<Longrightarrow> faults w' = faults w \<Longrightarrow> fst (SyncStat e p w') = fst (SyncStat e p w)"
  using outcome_eqI [of w' w "OsLstat p"]
  by (simp add: SyncStat_def sys_def split: option.splits)









lemma set_owner_faults [simp]: "faults (set_owner e v w) = faults w"
  by (cases "kind v")
    (simp_all add: set_owner_def VNode_set_owner_def VNodeLink_set_owner_def sys_def Let_def
      split: option.splits)

lemma set_permissions_faults [simp]: "faults (set_permissions e v w) = faults w"
  by (cases "kind v")
    (simp_all add: set_permissions_def VNode_set_permissions_def VNodeLink_set_permissions_def
      sys_def Let_def split: option.splits)

lemma check_metadata_faults [simp]: "faults (snd (check_metadata e so v w)) = faults w"
  by (simp add: check_metadata_def Let_def)






end
